theory Spec2Isabelle
  imports Main "HOL-Library.Word"
begin

section \<open>Python strings\<close>

text \<open>
  A Python \<open>str\<close> is a sequence of Unicode code points: \<open>len\<close>, \<open>count\<close>, \<open>find\<close>,
  slicing and \<open>strip\<close> all work on code points. A \<open>str\<close> is therefore a list of code
  points (natural numbers); an ASCII literal of the source is written \<open>S ''...''\<close>.
  A \<open>bytes\<close> value is a list of 8-bit words.
\<close>

type_synonym str = "nat list"
type_synonym byte = "8 word"

abbreviation S :: "string \<Rightarrow> str" where
  "S s \<equiv> map of_char s"

text \<open>\<open>str.isspace\<close> for one code point: the code points CPython lists as whitespace.\<close>

definition isspace :: "nat \<Rightarrow> bool" where
  "isspace c \<longleftrightarrow>
     (9 \<le> c \<and> c \<le> 13) \<or> (28 \<le> c \<and> c \<le> 32) \<or> c = 133 \<or> c = 160 \<or> c = 5760 \<or>
     (8192 \<le> c \<and> c \<le> 8202) \<or> c = 8232 \<or> c = 8233 \<or> c = 8239 \<or> c = 8287 \<or> c = 12288"

text \<open>\<open>s.strip()\<close>: leading and trailing whitespace removed.\<close>

definition strip :: "str \<Rightarrow> str" where
  "strip s = rev (dropWhile isspace (rev (dropWhile isspace s)))"

text \<open>\<open>s.startswith(p)\<close>.\<close>

definition startswith :: "str \<Rightarrow> str \<Rightarrow> bool" where
  "startswith s p \<longleftrightarrow> take (length p) s = p"

text \<open>\<open>p in s\<close>: \<open>p\<close> occurs in \<open>s\<close> as a substring.\<close>

fun contains :: "str \<Rightarrow> str \<Rightarrow> bool" where
  "contains [] p = (p = [])"
| "contains (c # cs) p = (startswith (c # cs) p \<or> contains cs p)"

text \<open>
  \<open>s.count(p)\<close>: the number of non-overlapping occurrences of \<open>p\<close>, scanning from the
  left; after a match the scan resumes behind it. For the empty pattern Python returns
  \<open>len(s) + 1\<close>.
\<close>

function count :: "str \<Rightarrow> str \<Rightarrow> nat" where
  "count s p =
     (if p = [] then length s + 1
      else if s = [] then 0
      else if startswith s p then 1 + count (drop (length p) s) p
      else count (tl s) p)"
  by pat_completeness auto
termination
  by (relation "measure (\<lambda>(s, p). length s)") auto

declare count.simps [simp del]

text \<open>\<open>s.split(sep)\<close> for a separator of one code point (the source only splits on newline).\<close>

fun split_aux :: "nat \<Rightarrow> str \<Rightarrow> str \<Rightarrow> str list" where
  "split_aux sep cur [] = [rev cur]"
| "split_aux sep cur (c # cs) =
     (if c = sep then rev cur # split_aux sep [] cs else split_aux sep (c # cur) cs)"

definition split :: "str \<Rightarrow> nat \<Rightarrow> str list" where
  "split s sep = split_aux sep [] s"

text \<open>\<open>sep.join(xs)\<close>.\<close>

fun join :: "str \<Rightarrow> str list \<Rightarrow> str" where
  "join sep [] = []"
| "join sep [x] = x"
| "join sep (x # y # ys) = x @ sep @ join sep (y # ys)"

text \<open>\<open>s.replace(a, b)\<close> for single code points \<open>a\<close> and \<open>b\<close>.\<close>

definition replace :: "str \<Rightarrow> nat \<Rightarrow> nat \<Rightarrow> str" where
  "replace s a b = map (\<lambda>c. if c = a then b else c) s"

text \<open>\<open>str(n)\<close> for an integer: its decimal digits, with a minus sign when negative.\<close>

fun digits :: "nat \<Rightarrow> str" where
  "digits n = (if n < 10 then [48 + n] else digits (n div 10) @ [48 + n mod 10])"

declare digits.simps [simp del]

definition str_int :: "int \<Rightarrow> str" where
  "str_int i = (if i < 0 then 45 # digits (nat (- i)) else digits (nat i))"

section \<open>Complexity estimate (thisworks.py, FunctionInfo)\<close>

text \<open>
  \<open>FunctionInfo.calculate_complexity\<close>: starts at 1 and adds \<open>self.code.count(p)\<close> for
  the six patterns, each a keyword followed by one space character.
\<close>

definition calculate_complexity :: "str \<Rightarrow> int" where
  "calculate_complexity code =
     (let complexity = 1;
          complexity = complexity + int (count code (S ''if ''));
          complexity = complexity + int (count code (S ''elif ''));
          complexity = complexity + int (count code (S ''for ''));
          complexity = complexity + int (count code (S ''while ''));
          complexity = complexity + int (count code (S ''and ''));
          complexity = complexity + int (count code (S ''or ''))
      in complexity)"

record FunctionInfo =
  f_name :: str
  f_start_line :: nat
  f_end_line :: nat
  f_code :: str
  f_has_loops :: bool
  f_has_conditionals :: bool
  f_calls :: "str list"
  f_complexity :: int

text \<open>The constructor \<open>FunctionInfo.__init__\<close>: the complexity is computed from the code.\<close>

definition FunctionInfo_init ::
  "str \<Rightarrow> nat \<Rightarrow> nat \<Rightarrow> str \<Rightarrow> bool \<Rightarrow> bool \<Rightarrow> str list \<Rightarrow> FunctionInfo" where
  "FunctionInfo_init name start_line end_line code has_loops has_conditionals calls =
     \<lparr>f_name = name, f_start_line = start_line, f_end_line = end_line, f_code = code,
      f_has_loops = has_loops, f_has_conditionals = has_conditionals, f_calls = calls,
      f_complexity = calculate_complexity code\<rparr>"

section \<open>Chunk planning (thisworks.py, create_chunks)\<close>

text \<open>
  A chunk is a dictionary with the keys \<open>type\<close>, \<open>code\<close>, \<open>name\<close>, \<open>complexity\<close> and,
  for a per-function chunk only, \<open>calls\<close>, \<open>has_loops\<close> and \<open>has_conditionals\<close>:
  the optional keys are options.
\<close>

record chunk =
  c_type :: str
  c_code :: str
  c_name :: str
  c_complexity :: int
  c_calls :: "str list option"
  c_has_loops :: "bool option"
  c_has_conditionals :: "bool option"

text \<open>
  The structure dictionary returned by \<open>analyze_code_structure\<close>; the orchestrator adds
  the key \<open>chunks\<close> later, so that key is optional.
\<close>

record code_structure =
  st_functions :: "FunctionInfo list"
  st_main_code :: "str list"
  st_total_lines :: int
  st_function_count :: int
  st_chunks :: "chunk list option"

definition function_chunk :: "FunctionInfo \<Rightarrow> chunk" where
  "function_chunk func =
     \<lparr>c_type = S ''function'', c_code = f_code func, c_name = f_name func,
      c_complexity = f_complexity func, c_calls = Some (f_calls func),
      c_has_loops = Some (f_has_loops func),
      c_has_conditionals = Some (f_has_conditionals func)\<rparr>"

definition create_chunks :: "code_structure \<Rightarrow> str \<Rightarrow> int \<Rightarrow> chunk list" where
  "create_chunks st code max_chunk_size =
     (let chunks0 = [] in
      if st_total_lines st \<le> max_chunk_size then
        chunks0 @ [\<lparr>c_type = S ''full'', c_code = code, c_name = S ''Main Flow'',
                    c_complexity = sum_list (map f_complexity (st_functions st)),
                    c_calls = None, c_has_loops = None, c_has_conditionals = None\<rparr>]
      else
        let chunks1 = foldl (\<lambda>acc func. acc @ [function_chunk func]) chunks0 (st_functions st) in
        if st_main_code st \<noteq> [] then
          let main_chunk_code = join [10] (st_main_code st) in
          chunks1 @ [\<lparr>c_type = S ''main'', c_code = main_chunk_code,
                      c_name = S ''Main Execution'', c_complexity = 1,
                      c_calls = None, c_has_loops = None, c_has_conditionals = None\<rparr>]
        else chunks1)"


section \<open>More string operations\<close>

text \<open>\<open>s.find(p, start)\<close>: the lowest index at or after \<open>start\<close> where \<open>p\<close> occurs, or -1.\<close>

fun find_aux :: "str \<Rightarrow> str \<Rightarrow> nat \<Rightarrow> int" where
  "find_aux [] p i = (if p = [] then int i else - 1)"
| "find_aux (c # cs) p i = (if startswith (c # cs) p then int i else find_aux cs p (Suc i))"

definition find_str :: "str \<Rightarrow> str \<Rightarrow> nat \<Rightarrow> int" where
  "find_str s p start = (if length s < start then - 1 else find_aux (drop start s) p start)"

text \<open>\<open>s[a:b]\<close> for indices \<open>0 \<le> a\<close> and \<open>0 \<le> b\<close>.\<close>

definition slice :: "str \<Rightarrow> nat \<Rightarrow> nat \<Rightarrow> str" where
  "slice s a b = take (b - a) (drop a s)"

text \<open>
  \<open>s.splitlines()\<close>: the text is cut at every line boundary (\<open>\r\n\<close> counts as one);
  a boundary at the very end opens no further line.
\<close>

definition is_linebreak :: "nat \<Rightarrow> bool" where
  "is_linebreak c \<longleftrightarrow>
     (10 \<le> c \<and> c \<le> 13) \<or> (28 \<le> c \<and> c \<le> 30) \<or> c = 133 \<or> c = 8232 \<or> c = 8233"

fun splitlines_aux :: "str \<Rightarrow> str \<Rightarrow> str list" where
  "splitlines_aux cur [] = (if cur = [] then [] else [rev cur])"
| "splitlines_aux cur [c] = (if is_linebreak c then [rev cur] else [rev (c # cur)])"
| "splitlines_aux cur (c # d # cs) =
     (if c = 13 \<and> d = 10 then rev cur # splitlines_aux [] cs
      else if is_linebreak c then rev cur # splitlines_aux [] (d # cs)
      else splitlines_aux (c # cur) (d # cs))"

definition splitlines :: "str \<Rightarrow> str list" where
  "splitlines s = splitlines_aux [] s"

section \<open>Exceptions\<close>

text \<open>
  Every exception the modelled code can raise. An \<open>HTTPException\<close> carries its status
  code and its detail; a detail built as \<open>f"prefix{str(e)}"\<close> from a caught exception
  \<open>e\<close> is \<open>Wrapped prefix e\<close>.
\<close>

datatype exc =
    IndexError
  | KeyError
  | ValueError
  | OverflowError
  | UnicodeEncodeError
  | HTTPException nat detail
and detail =
    Detail str
  | Wrapped str exc

text \<open>The status the HTTP layer answers with for the outcome of a handler.\<close>

fun http_status :: "exc + 'a \<Rightarrow> nat" where
  "http_status (Inr r) = 200"
| "http_status (Inl (HTTPException code d)) = code"
| "http_status (Inl e) = 500"

section \<open>UTF-8 and URL-safe base64 (Python standard library)\<close>

text \<open>
  \<open>s.encode('utf-8')\<close>: one to four bytes per code point; a surrogate code point
  (U+D800 to U+DFFF) cannot be encoded and raises \<open>UnicodeEncodeError\<close>.
\<close>

definition utf8_encode_cp :: "nat \<Rightarrow> byte list option" where
  "utf8_encode_cp c =
     (if c < 0x80 then Some [of_nat c]
      else if c < 0x800 then Some [of_nat (0xC0 + c div 64), of_nat (0x80 + c mod 64)]
      else if 0xD800 \<le> c \<and> c \<le> 0xDFFF then None
      else if c < 0x10000 then
        Some [of_nat (0xE0 + c div 4096), of_nat (0x80 + (c div 64) mod 64),
              of_nat (0x80 + c mod 64)]
      else if c < 0x110000 then
        Some [of_nat (0xF0 + c div 262144), of_nat (0x80 + (c div 4096) mod 64),
              of_nat (0x80 + (c div 64) mod 64), of_nat (0x80 + c mod 64)]
      else None)"

fun utf8_encode :: "str \<Rightarrow> byte list option" where
  "utf8_encode [] = Some []"
| "utf8_encode (c # cs) =
     (case utf8_encode_cp c of
        None \<Rightarrow> None
      | Some b \<Rightarrow> (case utf8_encode cs of None \<Rightarrow> None | Some bs \<Rightarrow> Some (b @ bs)))"

text \<open>
  Base64 (RFC 4648): the character of a 6-bit value in the standard alphabet
  \<open>A-Z a-z 0-9 + /\<close>, and the value of a character.
\<close>

definition b64_char :: "nat \<Rightarrow> nat" where
  "b64_char v =
     (if v < 26 then 65 + v
      else if v < 52 then 97 + (v - 26)
      else if v < 62 then 48 + (v - 52)
      else if v = 62 then 43 else 47)"

definition b64_value :: "nat \<Rightarrow> nat option" where
  "b64_value c =
     (if 65 \<le> c \<and> c \<le> 90 then Some (c - 65)
      else if 97 \<le> c \<and> c \<le> 122 then Some (c - 97 + 26)
      else if 48 \<le> c \<and> c \<le> 57 then Some (c - 48 + 52)
      else if c = 43 then Some 62
      else if c = 47 then Some 63
      else None)"

text \<open>
  \<open>base64.b64encode\<close>: three bytes give four characters; one or two bytes left at the end
  give two or three characters, filled to four with \<open>=\<close>.
\<close>

fun b64encode :: "byte list \<Rightarrow> str" where
  "b64encode [] = []"
| "b64encode [a] =
     [b64_char (unat a div 4), b64_char ((unat a mod 4) * 16), 61, 61]"
| "b64encode [a, b] =
     [b64_char (unat a div 4), b64_char ((unat a mod 4) * 16 + unat b div 16),
      b64_char ((unat b mod 16) * 4), 61]"
| "b64encode (a # b # c # bs) =
     [b64_char (unat a div 4), b64_char ((unat a mod 4) * 16 + unat b div 16),
      b64_char ((unat b mod 16) * 4 + unat c div 64), b64_char (unat c mod 64)]
     @ b64encode bs"

text \<open>
  \<open>base64.urlsafe_b64encode(bs).decode('utf-8')\<close>: the standard encoding with \<open>+\<close>
  replaced by \<open>-\<close> and \<open>/\<close> by \<open>_\<close>; the result is ASCII, so decoding it to a \<open>str\<close>
  keeps every character.
\<close>

definition urlsafe_b64encode :: "byte list \<Rightarrow> str" where
  "urlsafe_b64encode bs = map (\<lambda>c. if c = 43 then 45 else if c = 47 then 95 else c) (b64encode bs)"

text \<open>
  Modelled from the spec: the URL-safe base64 decoding the round-trip property applies to
  the payload is not part of the repository. It is the decoder of RFC 4648: groups of four
  characters, padding only in the last group, \<open>None\<close> on anything else.
\<close>

fun b64decode :: "str \<Rightarrow> byte list option" where
  "b64decode [] = Some []"
| "b64decode [w, x, y, z] =
     (case (b64_value w, b64_value x) of
        (Some p, Some q) \<Rightarrow>
          (if y = 61 \<and> z = 61 then Some [of_nat (p * 4 + q div 16)]
           else (case b64_value y of
             None \<Rightarrow> None
           | Some r \<Rightarrow>
               (if z = 61 then Some [of_nat (p * 4 + q div 16), of_nat ((q mod 16) * 16 + r div 4)]
                else (case b64_value z of
                  None \<Rightarrow> None
                | Some t \<Rightarrow>
                    Some [of_nat (p * 4 + q div 16), of_nat ((q mod 16) * 16 + r div 4),
                          of_nat ((r mod 4) * 64 + t)]))))
      | _ \<Rightarrow> None)"
| "b64decode (w # x # y # z # rest) =
     (case (b64_value w, b64_value x, b64_value y, b64_value z) of
        (Some p, Some q, Some r, Some t) \<Rightarrow>
          (case b64decode rest of
             None \<Rightarrow> None
           | Some bs \<Rightarrow>
               Some ([of_nat (p * 4 + q div 16), of_nat ((q mod 16) * 16 + r div 4),
                      of_nat ((r mod 4) * 64 + t)] @ bs))
      | _ \<Rightarrow> None)"
| "b64decode _ = None"

definition urlsafe_b64decode :: "str \<Rightarrow> byte list option" where
  "urlsafe_b64decode s = b64decode (map (\<lambda>c. if c = 45 then 43 else if c = 95 then 47 else c) s)"


section \<open>Language detection and structure analysis (thisworks.py)\<close>

definition detect_language :: "str \<Rightarrow> str" where
  "detect_language code =
     (let s = strip code in
      if startswith s (S ''def '') \<or> startswith s (S ''class '') \<or> startswith s (S ''import '')
         \<or> startswith s (S ''from '') \<or> startswith s (S ''async '') then S ''python''
      else if startswith s (S ''#include'') \<or> contains s (S '' main('') then S ''c''
      else if contains s (S ''function '') \<or> contains s (S ''const '') \<or> contains s (S ''=>'')
         \<or> contains s (S ''class '') then S ''javascript''
      else S ''python'')"

text \<open>
  The collaborators of one run. The tree-sitter parse and the walk over its tree are
  external: \<open>e_extract\<close> gives, for the encoded code and the language, the constructor
  arguments of every \<open>FunctionInfo\<close> the walk appends and the top-level snippets it
  records. \<open>e_llm\<close> is the text-generation call \<open>llm.invoke(prompt).content\<close>:
  \<open>None\<close> when it raises.
\<close>

type_synonym function_args = "str \<times> nat \<times> nat \<times> str \<times> bool \<times> bool \<times> str list"

text \<open>
  The prompt is one fixed template with six interpolated values; the model keeps the
  values and leaves the template's fixed wording out.
\<close>

record prompt =
  p_chunk_name :: str
  p_chunk_type :: str
  p_complexity :: int
  p_context :: str
  p_prefix :: nat
  p_code :: str

record env =
  e_extract :: "byte list \<Rightarrow> str \<Rightarrow> function_args list \<times> str list"
  e_llm :: "prompt \<Rightarrow> str option"

definition analyze_code_structure :: "env \<Rightarrow> str \<Rightarrow> str \<Rightarrow> exc + code_structure" where
  "analyze_code_structure env code lang =
     (case utf8_encode code of
        None \<Rightarrow> Inl UnicodeEncodeError
      | Some code_bytes \<Rightarrow>
          let (fargs, snippets) = e_extract env code_bytes lang;
              funcs = map (\<lambda>(name, start_line, end_line, fcode, has_loops, has_conditionals, calls).
                        FunctionInfo_init name start_line end_line fcode has_loops
                          has_conditionals calls) fargs
          in Inr \<lparr>st_functions = funcs, st_main_code = snippets,
                  st_total_lines = int (length (split code 10)),
                  st_function_count = int (length funcs), st_chunks = None\<rparr>)"

section \<open>Per-chunk diagram generation (thisworks.py, generate_flowchart_for_chunk)\<close>

text \<open>\<open>chr(i)\<close>: a code point for \<open>0 \<le> i < 0x110000\<close>, an exception otherwise.\<close>

definition py_chr :: "int \<Rightarrow> exc + nat" where
  "py_chr i =
     (if i < - (2 ^ 31) \<or> 2 ^ 31 \<le> i then Inl OverflowError
      else if i < 0 \<or> 0x110000 \<le> i then Inl ValueError
      else Inr (nat i))"

text \<open>The statements before the \<open>try\<close>: the context hints and the prompt.\<close>

definition build_context :: "chunk \<Rightarrow> str" where
  "build_context chunk =
     (let context = [];
          context = (if c_has_loops chunk = Some True
                     then context @ S ''This code contains loops - use proper loop back-edges. ''
                     else context);
          context = (if c_has_conditionals chunk = Some True
                     then context @ S ''This code has conditionals - use diamond decision nodes. ''
                     else context);
          context = (case c_calls chunk of
                       None \<Rightarrow> context
                     | Some calls \<Rightarrow>
                         if calls = [] then context
                         else context @ S ''This calls: '' @ join (S '', '') (take 5 calls) @ S ''. '')
      in context)"

definition build_prompt :: "chunk \<Rightarrow> int \<Rightarrow> exc + prompt" where
  "build_prompt chunk chunk_index =
     (let chunk_type = c_type chunk; chunk_name = c_name chunk; code = c_code chunk;
          context = build_context chunk
      in case py_chr (65 + chunk_index) of
           Inl e \<Rightarrow> Inl e
         | Inr letter \<Rightarrow>
             Inr \<lparr>p_chunk_name = chunk_name, p_chunk_type = chunk_type,
                  p_complexity = c_complexity chunk, p_context = context,
                  p_prefix = letter, p_code = code\<rparr>)"

text \<open>The body of the \<open>try\<close> after the call: the diagram is cut out of the answer.\<close>

definition extract_mermaid :: "str \<Rightarrow> str" where
  "extract_mermaid content =
     (let result = strip content;
          result =
            (if contains result (S ''```mermaid'') then
               (let start = nat (find_str result (S ''```mermaid'') 0 + 10);
                    end = find_str result (S ''```'') start
                in if end \<noteq> - 1 then strip (slice result start (nat end)) else result)
             else if contains result (S ''```'') then
               (let start = nat (find_str result (S ''```'') 0 + 3);
                    end = find_str result (S ''```'') start
                in if end \<noteq> - 1 then strip (slice result start (nat end)) else result)
             else result);
          result =
            (if \<not> startswith result (S ''graph TD'') \<and> \<not> startswith result (S ''flowchart TD'')
             then S ''graph TD'' @ [10] @ result else result)
      in strip result)"

definition generate_flowchart_for_chunk ::
  "(prompt \<Rightarrow> str option) \<Rightarrow> chunk \<Rightarrow> int \<Rightarrow> int \<Rightarrow> exc + str" where
  "generate_flowchart_for_chunk llm chunk chunk_index total_chunks =
     (case build_prompt chunk chunk_index of
        Inl e \<Rightarrow> Inl e
      | Inr prompt \<Rightarrow>
          (case llm prompt of
             Some content \<Rightarrow> Inr (extract_mermaid content)
           | None \<Rightarrow> Inr (S ''graph TD'' @ [10] @ S ''    ERR[Error: '' @ c_name chunk @ S '']'')))"

section \<open>Combining the diagrams (thisworks.py, combine_flowcharts)\<close>

text \<open>The body of the loop over \<open>enumerate(zip(structure['chunks'], chunk_flowcharts))\<close>.\<close>

definition subgraph_lines :: "nat \<Rightarrow> chunk \<Rightarrow> str \<Rightarrow> str list" where
  "subgraph_lines i chunk flowchart =
     (let chunk_name = replace (c_name chunk) 32 95;
          chunk_lines = filter (\<lambda>line. strip line \<noteq> [] \<and>
                            \<not> (startswith (strip line) (S ''graph'') \<or>
                               startswith (strip line) (S ''flowchart'')))
                          (split flowchart 10)
      in [S ''    subgraph SUB'' @ str_int (int i) @ S ''['' @ c_name chunk @ S '']'']
         @ map (\<lambda>line. S ''    '' @ line) chunk_lines
         @ [S ''    end''])"

definition combine_flowcharts :: "str list \<Rightarrow> code_structure \<Rightarrow> exc + str" where
  "combine_flowcharts chunk_flowcharts st =
     (if length chunk_flowcharts = 1 then Inr (chunk_flowcharts ! 0)
      else
        case st_chunks st of
          None \<Rightarrow> Inl KeyError
        | Some chunks \<Rightarrow>
            let lines = [S ''graph TD''];
                lines = lines @ [S ''    START([Program Start])''];
                lines = foldl (\<lambda>lines (i, (chunk, flowchart)). lines @ subgraph_lines i chunk flowchart)
                          lines (enumerate 0 (zip chunks chunk_flowcharts));
                lines = lines @ [S ''    START --> SUB0''];
                lines = foldl (\<lambda>lines i. lines @
                            [S ''    SUB'' @ str_int (int i) @ S '' --> SUB'' @ str_int (int i + 1)])
                          lines [0 ..< length chunk_flowcharts - 1];
                lines = lines @ [S ''    SUB'' @ str_int (int (length chunk_flowcharts) - 1)
                                 @ S '' --> END([Program End])'']
            in Inr (join [10] lines))"

section \<open>Rendering reference (thisworks.py, mermaid_to_svg)\<close>

text \<open>
  The globals of the two modules: the session dictionary and the current output of
  apicodenew2.py, and the current output of thisworks.py.
\<close>

record session =
  s_code :: str
  s_language :: str

record state =
  code_storage :: "str \<rightharpoonup> session"
  current_svg_url :: str
  current_mermaid_code :: str
  tw_current_svg_url :: str
  tw_current_mermaid_code :: str

text \<open>
  The HTML fragment \<open>mermaid_to_svg\<close> returns: the image frame around the URL, or the
  error text of the exception it caught.
\<close>

datatype html = ImgHtml str | ErrorHtml exc

definition mermaid_to_svg :: "str \<Rightarrow> state \<Rightarrow> html \<times> state" where
  "mermaid_to_svg mermaid_code s =
     (case utf8_encode mermaid_code of
        None \<Rightarrow> (ErrorHtml UnicodeEncodeError, s)
      | Some bytes \<Rightarrow>
          let encoded = urlsafe_b64encode bytes;
              s' = s\<lparr>tw_current_svg_url := S ''https://mermaid.ink/svg/'' @ encoded\<rparr>
          in (ImgHtml (tw_current_svg_url s'), s'))"

section \<open>The orchestrators\<close>

text \<open>\<open>xs[0]\<close>.\<close>

definition index0 :: "'a list \<Rightarrow> exc + 'a" where
  "index0 xs = (case xs of [] \<Rightarrow> Inl IndexError | x # _ \<Rightarrow> Inr x)"

text \<open>The loop \<open>for i, chunk in enumerate(chunks)\<close> that collects the diagrams.\<close>

fun generate_loop ::
  "(prompt \<Rightarrow> str option) \<Rightarrow> int \<Rightarrow> (nat \<times> chunk) list \<Rightarrow> str list \<Rightarrow> exc + str list" where
  "generate_loop llm total_chunks [] chunk_flowcharts = Inr chunk_flowcharts"
| "generate_loop llm total_chunks ((i, chunk) # rest) chunk_flowcharts =
     (case generate_flowchart_for_chunk llm chunk (int i) total_chunks of
        Inl e \<Rightarrow> Inl e
      | Inr flowchart \<Rightarrow> generate_loop llm total_chunks rest (chunk_flowcharts @ [flowchart]))"

record analysis =
  a_total_complexity :: int
  a_function_count :: int
  a_total_lines :: int
  a_chunks :: int
  a_language :: str

record flow_result =
  r_html_svg :: html
  r_mermaid_code :: str
  r_svg_url :: str
  r_analysis :: analysis
  r_session_id :: "str option"

text \<open>
  \<open>process_code_internal\<close> of apicodenew2.py. The status trace (a text for the reader)
  and the log file written at the end (inside its own \<open>try\<close>) are left out.
\<close>

definition process_code_internal ::
  "env \<Rightarrow> state \<Rightarrow> str \<Rightarrow> str \<Rightarrow> (exc + flow_result) \<times> state" where
  "process_code_internal env s code lang_choice =
     (let lang = (if lang_choice \<noteq> S ''auto'' then lang_choice else detect_language code) in
      case analyze_code_structure env code lang of
        Inl e \<Rightarrow> (Inl e, s)
      | Inr structure0 \<Rightarrow>
         (let chunks = create_chunks structure0 code 500;
              structure1 = structure0\<lparr>st_chunks := Some chunks\<rparr>
          in (case generate_loop (e_llm env) (int (length chunks)) (enumerate 0 chunks) [] of
               Inl e \<Rightarrow> (Inl e, s)
             | Inr chunk_flowcharts \<Rightarrow>
                 (case (if 1 < length chunks then combine_flowcharts chunk_flowcharts structure1
                        else index0 chunk_flowcharts) of
                    Inl e \<Rightarrow> (Inl e, s)
                  | Inr final_mermaid \<Rightarrow>
                      (let s1 = s\<lparr>current_mermaid_code := final_mermaid\<rparr>;
                           (html_svg, s2) = mermaid_to_svg final_mermaid s1
                       in (case utf8_encode final_mermaid of
                             None \<Rightarrow> (Inl UnicodeEncodeError, s2)
                           | Some bytes \<Rightarrow>
                               (let encoded = urlsafe_b64encode bytes;
                                    s3 = s2\<lparr>current_svg_url := S ''https://mermaid.ink/svg/'' @ encoded\<rparr>;
                                    total_complexity = sum_list (map c_complexity chunks);
                                    analysis = \<lparr>a_total_complexity = total_complexity,
                                                a_function_count = st_function_count structure1,
                                                a_total_lines = st_total_lines structure1,
                                                a_chunks = int (length chunks), a_language = lang\<rparr>
                                in (Inr \<lparr>r_html_svg = html_svg, r_mermaid_code = final_mermaid,
                                         r_svg_url = current_svg_url s3, r_analysis = analysis,
                                         r_session_id = None\<rparr>, s3))))))))"

text \<open>
  \<open>process_production_code\<close> of thisworks.py: the same sequence inside one \<open>try\<close>, whose
  handler turns any exception into an error message.
\<close>

datatype production_result = PleaseEnterCode | Complete html str | ErrorMessage exc

definition process_production_code ::
  "env \<Rightarrow> state \<Rightarrow> str \<Rightarrow> str \<Rightarrow> production_result \<times> state" where
  "process_production_code env s code lang_choice =
     (if strip code = [] then (PleaseEnterCode, s)
      else
        let lang = (if lang_choice \<noteq> S ''auto'' then lang_choice else detect_language code) in
        case analyze_code_structure env code lang of
          Inl e \<Rightarrow> (ErrorMessage e, s)
        | Inr structure0 \<Rightarrow>
           (let chunks = create_chunks structure0 code 500;
                structure1 = structure0\<lparr>st_chunks := Some chunks\<rparr>
            in (case generate_loop (e_llm env) (int (length chunks)) (enumerate 0 chunks) [] of
                 Inl e \<Rightarrow> (ErrorMessage e, s)
               | Inr chunk_flowcharts \<Rightarrow>
                   (case (if 1 < length chunks then combine_flowcharts chunk_flowcharts structure1
                          else index0 chunk_flowcharts) of
                      Inl e \<Rightarrow> (ErrorMessage e, s)
                    | Inr final_mermaid \<Rightarrow>
                        (let s1 = s\<lparr>tw_current_mermaid_code := final_mermaid\<rparr>;
                             (html_svg, s2) = mermaid_to_svg final_mermaid s1
                         in (Complete html_svg final_mermaid, s2))))))"

section \<open>The HTTP handlers (apicodenew2.py)\<close>

text \<open>
  The answer of each handler. \<open>generate_session_id()\<close> draws a random UUID: the drawn
  identifier is an argument of \<open>submit_code\<close>.
\<close>

datatype response =
    SubmitResponse str nat nat \<comment> \<open>session_id, code_length, lines\<close>
  | LanguageResponse str str \<comment> \<open>session_id, language\<close>
  | FlowchartResponse flow_result
  | SessionResponse str bool str nat nat \<comment> \<open>session_id, has_code, language, code_length, lines\<close>
  | CurrentResponse str str \<comment> \<open>svg_url, mermaid_code\<close>
  | DeleteResponse

definition submit_code :: "state \<Rightarrow> str \<Rightarrow> str \<Rightarrow> (exc + response) \<times> state" where
  "submit_code s new_id code =
     (case (if code = [] \<or> strip code = []
            then Inl (HTTPException 400 (Detail (S ''Code cannot be empty'')))
            else
              let session_id = new_id;
                  s' = s\<lparr>code_storage := (code_storage s)
                          (session_id \<mapsto> \<lparr>s_code = code, s_language = S ''auto''\<rparr>)\<rparr>
              in Inr (SubmitResponse session_id (length code) (length (splitlines code)), s')) of
        Inl e \<Rightarrow> (Inl (HTTPException 500 (Wrapped (S ''Error submitting code: '') e)), s)
      | Inr (r, s') \<Rightarrow> (Inr r, s'))"

definition valid_languages :: "str list" where
  "valid_languages = [S ''auto'', S ''python'', S ''javascript'', S ''c'']"

definition set_language :: "state \<Rightarrow> str \<Rightarrow> str \<Rightarrow> (exc + response) \<times> state" where
  "set_language s session_id lang =
     (case code_storage s session_id of
        None \<Rightarrow> (Inl (HTTPException 404 (Detail (S ''Session not found''))), s)
      | Some session_data \<Rightarrow>
          if lang \<notin> set valid_languages then
            (Inl (HTTPException 400 (Detail (S ''Invalid language. Choose from: ''
                    @ join (S '', '') valid_languages))), s)
          else
            (Inr (LanguageResponse session_id lang),
             s\<lparr>code_storage := (code_storage s)(session_id \<mapsto> session_data\<lparr>s_language := lang\<rparr>)\<rparr>))"


definition get_session :: "state \<Rightarrow> str \<Rightarrow> (exc + response) \<times> state" where
  "get_session s session_id =
     (case code_storage s session_id of
        None \<Rightarrow> (Inl (HTTPException 404 (Detail (S ''Session not found''))), s)
      | Some session_data \<Rightarrow>
          (Inr (SessionResponse session_id (s_code session_data \<noteq> []) (s_language session_data)
                  (length (s_code session_data)) (length (splitlines (s_code session_data)))), s))"

definition generate_flowchart :: "env \<Rightarrow> state \<Rightarrow> str \<Rightarrow> str \<Rightarrow> (exc + response) \<times> state" where
  "generate_flowchart env s code lang =
     (if code = [] \<or> strip code = [] then
        (Inl (HTTPException 400 (Detail (S ''Code cannot be empty''))), s)
      else
        case process_code_internal env s code lang of
          (Inl (HTTPException c d), s') \<Rightarrow> (Inl (HTTPException c d), s')
        | (Inl e, s') \<Rightarrow> (Inl (HTTPException 500 (Wrapped (S ''Error processing code: '') e)), s')
        | (Inr result, s') \<Rightarrow>
            (Inr (FlowchartResponse (result\<lparr>r_session_id := Some (S ''direct'')\<rparr>)), s'))"


definition delete_session :: "state \<Rightarrow> str \<Rightarrow> (exc + response) \<times> state" where
  "delete_session s session_id =
     (case code_storage s session_id of
        None \<Rightarrow> (Inl (HTTPException 404 (Detail (S ''Session not found''))), s)
      | Some session_data \<Rightarrow>
          (Inr DeleteResponse, s\<lparr>code_storage := (code_storage s)(session_id := None)\<rparr>))"

text \<open>The state at process start, the requests, and a run of the process over requests.\<close>

definition initial_state :: state where
  "initial_state =
     \<lparr>code_storage = Map.empty, current_svg_url = [], current_mermaid_code = [],
      tw_current_svg_url = [], tw_current_mermaid_code = []\<rparr>"




section \<open>Notions used in the statements\<close>

text \<open>
  The number of positions of \<open>s\<close> at which \<open>p\<close> occurs, overlapping or not.
\<close>

fun occurrences :: "str \<Rightarrow> str \<Rightarrow> nat" where
  "occurrences [] p = 0"
| "occurrences (c # cs) p = (if startswith (c # cs) p then 1 else 0) + occurrences cs p"

definition keyword_patterns :: "str list" where
  "keyword_patterns = [S ''if '', S ''elif '', S ''for '', S ''while '', S ''and '', S ''or '']"

text \<open>
  The estimate in the specification's words: 1 plus one for each non-overlapping,
  case-sensitive, whitespace-bounded occurrence of each keyword. An occurrence counts
  when the character right behind it is a whitespace character.
\<close>

function spec_count :: "str \<Rightarrow> str \<Rightarrow> nat" where
  "spec_count s k =
     (if k = [] \<or> s = [] then 0
      else if startswith s k \<and> (case drop (length k) s of [] \<Rightarrow> False | c # cs \<Rightarrow> isspace c)
        then 1 + spec_count (drop (length k) s) k
      else spec_count (tl s) k)"
  by pat_completeness auto
termination
  by (relation "measure (\<lambda>(s, k). length s)") auto

declare spec_count.simps [simp del]

definition spec_complexity :: "str \<Rightarrow> int" where
  "spec_complexity code =
     1 + int (sum_list (map (spec_count code)
                [S ''if'', S ''elif'', S ''for'', S ''while'', S ''and'', S ''or'']))"




text \<open>The payload of a rendering URL: what follows the service's path prefix.\<close>

definition url_payload :: "str \<Rightarrow> str" where
  "url_payload url = drop (length (S ''https://mermaid.ink/svg/'')) url"


section \<open>Example inputs\<close>

definition example_small :: code_structure where
  "example_small =
     \<lparr>st_functions = [], st_main_code = [S ''x = 1'', S ''y = 2''], st_total_lines = 3,
      st_function_count = 0, st_chunks = None\<rparr>"

definition example_large :: code_structure where
  "example_large =
     \<lparr>st_functions =
        [FunctionInfo_init (S ''f'') 0 1 (S ''def f(): if a and b: pass'') False True [],
         FunctionInfo_init (S ''g'') 2 3 (S ''def g(): pass'') False False [S ''f'']],
      st_main_code = [S ''g()''], st_total_lines = 600,
      st_function_count = 2, st_chunks = None\<rparr>"

text \<open>
  Collaborators of a run over a file with no function and no top-level statement: one
  whose text generation answers with a diagram, one whose answer holds a lone surrogate
  code point, and one whose text generation raises.
\<close>

definition example_env :: env where
  "example_env =
     \<lparr>e_extract = (\<lambda>code_bytes lang. ([], [])),
      e_llm = (\<lambda>prompt. Some (S ''graph TD'' @ [10] @ S ''    A1([Start]) --> A2([End])''))\<rparr>"


definition failing_env :: env where
  "failing_env = \<lparr>e_extract = (\<lambda>code_bytes lang. ([], [])), e_llm = (\<lambda>prompt. None)\<rparr>"

definition example_text :: str where
  "example_text = S ''graph TD'' @ [10] @ [0x41, 0xE9, 0x20AC, 0x1F600]"

text \<open>Two chunks of a large submission and the diagrams generated for them.\<close>

definition example_chunks :: "chunk list" where
  "example_chunks =
     [function_chunk (FunctionInfo_init (S ''f'') 0 1 (S ''def f(): pass'') False False []),
      \<lparr>c_type = S ''main'', c_code = S ''f()'', c_name = S ''Main Execution'', c_complexity = 1,
       c_calls = None, c_has_loops = None, c_has_conditionals = None\<rparr>]"

definition example_fragments :: "str list" where
  "example_fragments =
     [S ''graph TD'' @ [10] @ S ''    A1([Start]) --> A2([End])'',
      S ''flowchart TD'' @ [10] @ [10] @ S ''  B1[Call f]'']"

definition example_combined :: code_structure where
  "example_combined =
     \<lparr>st_functions = [], st_main_code = [S ''f()''], st_total_lines = 600,
      st_function_count = 1, st_chunks = Some example_chunks\<rparr>"

text \<open>The state after one session was created at process start.\<close>

definition example_stored :: state where
  "example_stored = snd (submit_code initial_state (S ''id-1'') (S ''x = 1''))"





text \<open>A code text of 501 lines: a comment sign and 500 newlines.\<close>

definition comment_only_code :: str where
  "comment_only_code = 35 # replicate 500 10"


section \<open>Chunk planning: the plan for every submission\<close>

lemma foldl_snoc_map: "foldl (\<lambda>acc x. acc @ [g x]) acc xs = acc @ map g xs"
  by (induction xs arbitrary: acc) simp_all

lemma create_chunks_small:
  assumes "st_total_lines st \<le> m"
  shows "create_chunks st code m =
           [\<lparr>c_type = S ''full'', c_code = code, c_name = S ''Main Flow'',
             c_complexity = sum_list (map f_complexity (st_functions st)),
             c_calls = None, c_has_loops = None, c_has_conditionals = None\<rparr>]"
  using assms by (simp add: create_chunks_def)

lemma create_chunks_large:
  assumes "m < st_total_lines st"
  shows "create_chunks st code m =
           map function_chunk (st_functions st) @
             (if st_main_code st \<noteq> [] then
                [\<lparr>c_type = S ''main'', c_code = join [10] (st_main_code st),
                  c_name = S ''Main Execution'', c_complexity = 1,
                  c_calls = None, c_has_loops = None, c_has_conditionals = None\<rparr>]
              else [])"
  using assms by (simp add: create_chunks_def foldl_snoc_map Let_def)

text \<open>
  C1. With the default threshold of 500: when the reported line count is at most 500 the
  planner returns exactly one full-submission chunk, whose complexity is the sum of the
  complexities of the extracted functions; when it exceeds 500 the planner returns one
  per-function chunk per extracted function, in extraction order, followed by exactly one
  aggregate chunk of complexity 1 when at least one top-level snippet was recorded, and by
  nothing otherwise.
\<close>

theorem create_chunks_plan:
  "(st_total_lines st \<le> 500 \<longrightarrow>
      (\<exists>c. create_chunks st code 500 = [c] \<and> c_type c = S ''full'' \<and> c_code c = code \<and>
           c_name c = S ''Main Flow'' \<and>
           c_complexity c = sum_list (map f_complexity (st_functions st)))) \<and>
   (500 < st_total_lines st \<longrightarrow>
      (\<exists>rest. create_chunks st code 500 = map function_chunk (st_functions st) @ rest \<and>
         (st_main_code st \<noteq> [] \<longrightarrow>
            (\<exists>a. rest = [a] \<and> c_type a = S ''main'' \<and> c_complexity a = 1 \<and>
                 c_name a = S ''Main Execution'' \<and> c_code a = join [10] (st_main_code st))) \<and>
         (st_main_code st = [] \<longrightarrow> rest = [])))"
proof (intro conjI impI)
  assume "st_total_lines st \<le> 500"
  then show "\<exists>c. create_chunks st code 500 = [c] \<and> c_type c = S ''full'' \<and> c_code c = code \<and>
           c_name c = S ''Main Flow'' \<and>
           c_complexity c = sum_list (map f_complexity (st_functions st))"
    by (simp add: create_chunks_small)
next
  assume "500 < st_total_lines st"
  then have eq: "create_chunks st code 500 =
           map function_chunk (st_functions st) @
             (if st_main_code st \<noteq> [] then
                [\<lparr>c_type = S ''main'', c_code = join [10] (st_main_code st),
                  c_name = S ''Main Execution'', c_complexity = 1,
                  c_calls = None, c_has_loops = None, c_has_conditionals = None\<rparr>]
              else [])"
    by (rule create_chunks_large)
  show "\<exists>rest. create_chunks st code 500 = map function_chunk (st_functions st) @ rest \<and>
         (st_main_code st \<noteq> [] \<longrightarrow>
            (\<exists>a. rest = [a] \<and> c_type a = S ''main'' \<and> c_complexity a = 1 \<and>
                 c_name a = S ''Main Execution'' \<and> c_code a = join [10] (st_main_code st))) \<and>
         (st_main_code st = [] \<longrightarrow> rest = [])"
    unfolding eq by auto
qed

theorem create_chunks_plan_witness:
  "st_total_lines example_small \<le> 500 \<and>
   map c_name (create_chunks example_small (S ''x = 1'' @ [10] @ S ''y = 2'' @ [10]) 500)
     = [S ''Main Flow''] \<and>
   map c_complexity (create_chunks example_small (S ''x = 1'' @ [10] @ S ''y = 2'' @ [10]) 500)
     = [0] \<and>
   500 < st_total_lines example_large \<and> st_main_code example_large \<noteq> [] \<and>
   map c_name (create_chunks example_large [] 500) = [S ''f'', S ''g'', S ''Main Execution''] \<and>
   map c_complexity (create_chunks example_large [] 500) = [3, 1, 1]"
proof -
  have small: "st_total_lines example_small \<le> 500"
    by (simp add: example_small_def)
  have large: "500 < st_total_lines example_large" "st_main_code example_large \<noteq> []"
    by (simp_all add: example_large_def)
  from create_chunks_plan [of example_small "S ''x = 1'' @ [10] @ S ''y = 2'' @ [10]"] small
  obtain c where c: "create_chunks example_small (S ''x = 1'' @ [10] @ S ''y = 2'' @ [10]) 500 = [c]"
      "c_name c = S ''Main Flow''"
      "c_complexity c = sum_list (map f_complexity (st_functions example_small))"
    by blast
  from create_chunks_plan [of example_large "[]"] large
  obtain a where a: "create_chunks example_large [] 500
        = map function_chunk (st_functions example_large) @ [a]"
      "c_name a = S ''Main Execution''" "c_complexity a = 1"
    by blast
  have fs: "map (c_name \<circ> function_chunk) (st_functions example_large) = [S ''f'', S ''g'']"
    by (simp add: example_large_def function_chunk_def FunctionInfo_init_def)
  have cs: "map (c_complexity \<circ> function_chunk) (st_functions example_large) = [3, 1]"
    by (simp add: example_large_def function_chunk_def FunctionInfo_init_def
        calculate_complexity_def count.simps startswith_def)
  from c have "map c_name (create_chunks example_small (S ''x = 1'' @ [10] @ S ''y = 2'' @ [10]) 500)
        = [S ''Main Flow'']"
      "map c_complexity (create_chunks example_small (S ''x = 1'' @ [10] @ S ''y = 2'' @ [10]) 500)
        = [0]"
    by (simp_all add: example_small_def)
  moreover from a fs cs
  have "map c_name (create_chunks example_large [] 500) = [S ''f'', S ''g'', S ''Main Execution'']"
      "map c_complexity (create_chunks example_large [] 500) = [3, 1, 1]"
    by simp_all
  ultimately show ?thesis using small large by blast
qed

section \<open>Complexity estimate: what is counted\<close>

lemma no_match_inside:
  assumes "32 \<notin> set q" "length u < length q"
  shows "\<not> startswith (u @ 32 # r) (q @ [32])"
proof
  assume "startswith (u @ 32 # r) (q @ [32])"
  then have eq: "take (Suc (length q)) (u @ 32 # r) = q @ [32]"
    by (simp add: startswith_def)
  have "(take (Suc (length q)) (u @ 32 # r)) ! length u = 32"
    using assms(2) by (simp add: nth_append)
  with eq have "(q @ [32]) ! length u = 32" by simp
  with assms(2) have "q ! length u = 32" by (simp add: nth_append)
  with assms show False by (metis nth_mem)
qed

lemma occurrences_skip:
  "32 \<notin> set q \<Longrightarrow> length u < length q \<Longrightarrow>
   occurrences (u @ 32 # r) (q @ [32]) = occurrences (32 # r) (q @ [32])"
proof (induction u)
  case Nil
  then show ?case by simp
next
  case (Cons x u)
  have "\<not> startswith ((x # u) @ 32 # r) (q @ [32])"
    using Cons.prems by (rule no_match_inside)
  moreover have "occurrences (u @ 32 # r) (q @ [32]) = occurrences (32 # r) (q @ [32])"
    using Cons by simp
  ultimately show ?case by simp
qed

lemma occurrences_space:
  assumes "q \<noteq> []" "32 \<notin> set q"
  shows "occurrences (32 # r) (q @ [32]) = occurrences r (q @ [32])"
proof -
  have "\<not> startswith (32 # r) (q @ [32])"
    using no_match_inside [of q "[]" r] assms by simp
  then show ?thesis by simp
qed

text \<open>
  A pattern that ends in its only space cannot overlap itself, so the scan of \<open>count\<close>
  misses no occurrence.
\<close>

lemma count_occurrences:
  assumes q: "q \<noteq> []" "32 \<notin> set q"
  shows "count s (q @ [32]) = occurrences s (q @ [32])"
proof (induction s "q @ [32]" rule: count.induct)
  case (1 s)
  show ?case
  proof (cases "s = []")
    case True
    then show ?thesis by (simp add: count.simps)
  next
    case ne: False
    then obtain c cs where s: "s = c # cs" by (cases s) auto
    show ?thesis
    proof (cases "startswith s (q @ [32])")
      case True
      define r where "r = drop (length (q @ [32])) s"
      from True have "s = (q @ [32]) @ r"
        unfolding r_def startswith_def by (metis append_take_drop_id)
      then have s2: "s = q @ 32 # r" by simp
      from q s s2 have cs: "cs = tl q @ 32 # r" by (cases q) auto
      have "count s (q @ [32]) = 1 + count r (q @ [32])"
        using True ne by (subst count.simps) (simp add: r_def)
      also have "count r (q @ [32]) = occurrences r (q @ [32])"
        using 1(1) ne True by (simp add: r_def)
      finally have lhs: "count s (q @ [32]) = 1 + occurrences r (q @ [32])" .
      have "occurrences cs (q @ [32]) = occurrences (32 # r) (q @ [32])"
        unfolding cs using q by (intro occurrences_skip) (auto simp: less_Suc_eq_le)
      also have "\<dots> = occurrences r (q @ [32])" using q by (rule occurrences_space)
      finally have "occurrences s (q @ [32]) = 1 + occurrences r (q @ [32])"
        using True s by simp
      with lhs show ?thesis by simp
    next
      case False
      have "count s (q @ [32]) = count (tl s) (q @ [32])"
        using False ne by (subst count.simps) simp
      also have "\<dots> = occurrences (tl s) (q @ [32])"
        using 1(2) ne False by simp
      finally show ?thesis using False s by simp
    qed
  qed
qed

lemma occurrences_not_contains: "p \<noteq> [] \<Longrightarrow> \<not> contains s p \<Longrightarrow> occurrences s p = 0"
  by (induction s) auto

lemma calculate_complexity_occurrences:
  "calculate_complexity code = 1 + int (sum_list (map (occurrences code) keyword_patterns))"
proof -
  have "count code (S ''if '') = occurrences code (S ''if '')"
    using count_occurrences [of "S ''if''" code] by simp
  moreover have "count code (S ''elif '') = occurrences code (S ''elif '')"
    using count_occurrences [of "S ''elif''" code] by simp
  moreover have "count code (S ''for '') = occurrences code (S ''for '')"
    using count_occurrences [of "S ''for''" code] by simp
  moreover have "count code (S ''while '') = occurrences code (S ''while '')"
    using count_occurrences [of "S ''while''" code] by simp
  moreover have "count code (S ''and '') = occurrences code (S ''and '')"
    using count_occurrences [of "S ''and''" code] by simp
  moreover have "count code (S ''or '') = occurrences code (S ''or '')"
    using count_occurrences [of "S ''or''" code] by simp
  ultimately show ?thesis
    by (simp add: calculate_complexity_def keyword_patterns_def)
qed

text \<open>
  C2, as amended. The estimate is 1 plus, for each of the six patterns \<open>if\<close>, \<open>elif\<close>,
  \<open>for\<close>, \<open>while\<close>, \<open>and\<close>, \<open>or\<close> followed by one space character, the number of
  positions at which the pattern occurs in the text as a case-sensitive substring
  (nothing is required of the character before it, and no other whitespace character
  after the keyword counts). It is 1 for a text that contains none of the patterns, and
  it does not decrease when no pattern's number of occurrences decreases.
\<close>

theorem calculate_complexity_counts:
  "calculate_complexity code = 1 + int (sum_list (map (occurrences code) keyword_patterns)) \<and>
   ((\<forall>p \<in> set keyword_patterns. \<not> contains code p) \<longrightarrow> calculate_complexity code = 1) \<and>
   ((\<forall>p \<in> set keyword_patterns. occurrences a p \<le> occurrences b p) \<longrightarrow>
      calculate_complexity a \<le> calculate_complexity b)"
proof (intro conjI impI)
  show "calculate_complexity code = 1 + int (sum_list (map (occurrences code) keyword_patterns))"
    by (rule calculate_complexity_occurrences)
next
  assume "\<forall>p \<in> set keyword_patterns. \<not> contains code p"
  then have "\<forall>p \<in> set keyword_patterns. occurrences code p = 0"
    by (auto simp: keyword_patterns_def intro!: occurrences_not_contains)
  then show "calculate_complexity code = 1"
    by (simp add: calculate_complexity_occurrences keyword_patterns_def)
next
  assume "\<forall>p \<in> set keyword_patterns. occurrences a p \<le> occurrences b p"
  then have "sum_list (map (occurrences a) keyword_patterns)
      \<le> sum_list (map (occurrences b) keyword_patterns)"
    by (intro sum_list_mono) simp
  then show "calculate_complexity a \<le> calculate_complexity b"
    by (simp add: calculate_complexity_occurrences)
qed

theorem calculate_complexity_counts_witness:
  "list_all (\<lambda>p. \<not> contains (S ''x = 1'') p) keyword_patterns \<and>
   calculate_complexity (S ''x = 1'') = 1 \<and>
   list_all (\<lambda>p. occurrences (S ''if x: y'') p \<le> occurrences (S ''if x or y: z'') p)
     keyword_patterns \<and>
   calculate_complexity (S ''if x: y'') \<le> calculate_complexity (S ''if x or y: z'')"
proof -
  have h1: "\<forall>p \<in> set keyword_patterns. \<not> contains (S ''x = 1'') p"
    by (simp add: keyword_patterns_def startswith_def)
  have h2: "\<forall>p \<in> set keyword_patterns.
      occurrences (S ''if x: y'') p \<le> occurrences (S ''if x or y: z'') p"
    by (simp add: keyword_patterns_def startswith_def)
  from calculate_complexity_counts [of "S ''x = 1''" "S ''if x: y''" "S ''if x or y: z''"] h1 h2
  have "calculate_complexity (S ''x = 1'') = 1"
    "calculate_complexity (S ''if x: y'') \<le> calculate_complexity (S ''if x or y: z'')"
    by blast+
  with h1 h2 show ?thesis by (simp add: list_all_iff)
qed

text \<open>
  The claim as the specification words it fails where a keyword is followed by a
  whitespace character other than a space: in \<open>x and\<close>, newline, \<open>y\<close> the keyword
  \<open>and\<close> ends its line, and the code counts nothing.
\<close>

theorem calculate_complexity_counterexample:
  "calculate_complexity (S ''x and'' @ [10] @ S ''y'') = 1 \<and>
   spec_complexity (S ''x and'' @ [10] @ S ''y'') = 2"
  by (simp add: calculate_complexity_def spec_complexity_def count.simps spec_count.simps
      startswith_def isspace_def)

section \<open>Rendering reference: the payload decodes to the diagram\<close>


lemma b64_value_char: "v < 64 \<Longrightarrow> b64_value (b64_char v) = Some v"
  by (auto simp: b64_value_def b64_char_def)

lemma b64_char_not_pad: "v < 64 \<Longrightarrow> b64_char v \<noteq> 61"
  by (auto simp: b64_char_def)

lemma b64_char_not_urlsafe: "v < 64 \<Longrightarrow> b64_char v \<noteq> 45 \<and> b64_char v \<noteq> 95"
  by (auto simp: b64_char_def)

lemma byte_bound: "unat (a :: byte) < 256"
  using unsigned_less [of a, where ?'a = nat] by simp

lemma sextets:
  fixes a b c :: nat
  assumes "a < 256" "b < 256" "c < 256"
  shows "a div 4 < 64" "(a mod 4) * 16 + b div 16 < 64" "(b mod 16) * 4 + c div 64 < 64"
    "c mod 64 < 64" "(a mod 4) * 16 < 64" "(b mod 16) * 4 < 64"
  using assms by auto

lemma regroup:
  fixes a b c :: nat
  assumes "a < 256" "b < 256" "c < 256"
  shows "(a div 4) * 4 + ((a mod 4) * 16 + b div 16) div 16 = a"
    "(((a mod 4) * 16 + b div 16) mod 16) * 16 + ((b mod 16) * 4 + c div 64) div 4 = b"
    "(((b mod 16) * 4 + c div 64) mod 4) * 64 + c mod 64 = c"
    "(a div 4) * 4 + ((a mod 4) * 16) div 16 = a"
    "(((a mod 4) * 16 + b div 16) mod 16) * 16 + ((b mod 16) * 4) div 4 = b"
  using assms by auto

lemma b64encode_Nil: "b64encode bs = [] \<longleftrightarrow> bs = []"
  by (induction bs rule: b64encode.induct) simp_all

lemma decode_group:
  fixes a b c :: byte
  defines "p \<equiv> unat a div 4" and "q \<equiv> (unat a mod 4) * 16 + unat b div 16"
    and "r \<equiv> (unat b mod 16) * 4 + unat c div 64" and "t \<equiv> unat c mod 64"
  shows "p < 64" "q < 64" "r < 64" "t < 64"
    "(of_nat (p * 4 + q div 16) :: byte) = a"
    "(of_nat ((q mod 16) * 16 + r div 4) :: byte) = b"
    "(of_nat ((r mod 4) * 64 + t) :: byte) = c"
proof -
  note bd = byte_bound [of a] byte_bound [of b] byte_bound [of c]
  show "p < 64" "q < 64" "r < 64" "t < 64"
    unfolding p_def q_def r_def t_def using sextets [OF bd] by simp_all
  have "p * 4 + q div 16 = unat a" "(q mod 16) * 16 + r div 4 = unat b"
    "(r mod 4) * 64 + t = unat c"
    unfolding p_def q_def r_def t_def using regroup [OF bd] by simp_all
  then show "(of_nat (p * 4 + q div 16) :: byte) = a"
    "(of_nat ((q mod 16) * 16 + r div 4) :: byte) = b"
    "(of_nat ((r mod 4) * 64 + t) :: byte) = c"
    by simp_all
qed

lemma b64_roundtrip: "b64decode (b64encode bs) = Some bs"
proof (induction bs rule: b64encode.induct)
  case 1
  show ?case by simp
next
  case (2 a)
  note bd = byte_bound [of a]
  have v: "unat a div 4 < 64" "(unat a mod 4) * 16 < 64" using bd by auto
  have "(unat a div 4) * 4 + ((unat a mod 4) * 16) div 16 = unat a" using bd by auto
  then show ?case using v by (simp add: b64_value_char)
next
  case (3 a b)
  note bd = byte_bound [of a] byte_bound [of b]
  have v: "unat a div 4 < 64" "(unat a mod 4) * 16 + unat b div 16 < 64" "(unat b mod 16) * 4 < 64"
    using bd by auto
  have "(unat a div 4) * 4 + ((unat a mod 4) * 16 + unat b div 16) div 16 = unat a"
    "(((unat a mod 4) * 16 + unat b div 16) mod 16) * 16 + ((unat b mod 16) * 4) div 4 = unat b"
    using bd by auto
  then show ?case using v by (simp add: b64_value_char b64_char_not_pad)
next
  case (4 a b c bs)
  note g = decode_group
  show ?case
  proof (cases "bs = []")
    case True
    then show ?thesis using g by (simp add: b64_value_char b64_char_not_pad)
  next
    case False
    then obtain x xs where "b64encode bs = x # xs"
      by (cases "b64encode bs") (auto simp: b64encode_Nil)
    then show ?thesis using g 4 by (simp add: b64_value_char)
  qed
qed

lemma b64encode_chars: "c \<in> set (b64encode bs) \<Longrightarrow> c \<noteq> 45 \<and> c \<noteq> 95"
proof (induction bs rule: b64encode.induct)
  case 1
  then show ?case by simp
next
  case (2 a)
  note bd = byte_bound [of a]
  have v: "unat a div 4 < 64" "(unat a mod 4) * 16 < 64" using bd by auto
  from 2 v show ?case using b64_char_not_urlsafe by auto
next
  case (3 a b)
  note bd = byte_bound [of a] byte_bound [of b]
  have v: "unat a div 4 < 64" "(unat a mod 4) * 16 + unat b div 16 < 64" "(unat b mod 16) * 4 < 64"
    using bd by auto
  from 3 v show ?case using b64_char_not_urlsafe by auto
next
  case (4 a b c bs)
  note g = decode_group(1-4)
  from 4 g show ?case using b64_char_not_urlsafe by auto
qed

lemma urlsafe_roundtrip: "urlsafe_b64decode (urlsafe_b64encode bs) = Some bs"
proof -
  have "map (\<lambda>c. if c = 45 then 43 else if c = 95 then 47 else c)
          (map (\<lambda>c. if c = 43 then 45 else if c = 47 then 95 else c) (b64encode bs))
        = b64encode bs"
    using b64encode_chars [of _ bs] by (auto simp: map_idI)
  then show ?thesis
    by (simp add: urlsafe_b64decode_def urlsafe_b64encode_def b64_roundtrip del: map_map)
qed


section \<open>The orchestrator: how a run can end\<close>

lemma mermaid_to_svg_api:
  "current_svg_url (snd (mermaid_to_svg t s)) = current_svg_url s"
  "current_mermaid_code (snd (mermaid_to_svg t s)) = current_mermaid_code s"
  "code_storage (snd (mermaid_to_svg t s)) = code_storage s"
  by (simp_all add: mermaid_to_svg_def Let_def split: option.splits)

lemma process_code_internal_cases:
  obtains (early) e where "process_code_internal env s code lang = (Inl e, s)"
  | (encode) s2 where "process_code_internal env s code lang = (Inl UnicodeEncodeError, s2)"
      "current_svg_url s2 = current_svg_url s" "code_storage s2 = code_storage s"
  | (ok) res s3 bytes where "process_code_internal env s code lang = (Inr res, s3)"
      "utf8_encode (r_mermaid_code res) = Some bytes"
      "r_svg_url res = S ''https://mermaid.ink/svg/'' @ urlsafe_b64encode bytes"
      "current_svg_url s3 = r_svg_url res" "current_mermaid_code s3 = r_mermaid_code res"
      "code_storage s3 = code_storage s"
proof -
  define lang' where "lang' = (if lang \<noteq> S ''auto'' then lang else detect_language code)"
  show thesis
  proof (cases "analyze_code_structure env code lang'")
    case (Inl e)
    then have "process_code_internal env s code lang = (Inl e, s)"
      by (simp add: process_code_internal_def lang'_def)
    then show ?thesis by (rule early)
  next
    case (Inr st0)
    define chunks where "chunks = create_chunks st0 code 500"
    define st1 where "st1 = st0\<lparr>st_chunks := Some chunks\<rparr>"
    show ?thesis
    proof (cases "generate_loop (e_llm env) (int (length chunks)) (enumerate 0 chunks) []")
      case (Inl e)
      with Inr have "process_code_internal env s code lang = (Inl e, s)"
        by (simp add: process_code_internal_def lang'_def chunks_def Let_def)
      then show ?thesis by (rule early)
    next
      case fcs: (Inr cfs)
      show ?thesis
      proof (cases "if 1 < length chunks then combine_flowcharts cfs st1 else index0 cfs")
        case (Inl e)
        with Inr fcs have "process_code_internal env s code lang = (Inl e, s)"
          by (auto simp add: process_code_internal_def lang'_def chunks_def st1_def Let_def
              split: if_splits)
        then show ?thesis by (rule early)
      next
        case fin: (Inr final)
        define s1 where "s1 = s\<lparr>current_mermaid_code := final\<rparr>"
        define s2 where "s2 = snd (mermaid_to_svg final s1)"
        define h where "h = fst (mermaid_to_svg final s1)"
        have m: "mermaid_to_svg final s1 = (h, s2)" by (simp add: h_def s2_def)
        have s2: "current_svg_url s2 = current_svg_url s" "code_storage s2 = code_storage s"
          "current_mermaid_code s2 = final"
          by (simp_all add: s2_def mermaid_to_svg_api s1_def)
        show ?thesis
        proof (cases "utf8_encode final")
          case None
          with Inr fcs fin m have "process_code_internal env s code lang = (Inl UnicodeEncodeError, s2)"
            by (auto simp add: process_code_internal_def lang'_def chunks_def st1_def Let_def s1_def
                split: if_splits)
          then show ?thesis using s2(1,2) by (rule encode)
        next
          case (Some bytes)
          define url where "url = S ''https://mermaid.ink/svg/'' @ urlsafe_b64encode bytes"
          define res where "res = \<lparr>r_html_svg = h, r_mermaid_code = final, r_svg_url = url,
             r_analysis = \<lparr>a_total_complexity = sum_list (map c_complexity chunks),
                            a_function_count = st_function_count st1,
                            a_total_lines = st_total_lines st1,
                            a_chunks = int (length chunks), a_language = lang'\<rparr>,
             r_session_id = None\<rparr>"
          from Inr fcs fin m Some
          have "process_code_internal env s code lang = (Inr res, s2\<lparr>current_svg_url := url\<rparr>)"
            by (auto simp add: process_code_internal_def lang'_def chunks_def st1_def Let_def s1_def
                res_def url_def split: if_splits)
          then show ?thesis
          proof (rule ok)
            show "utf8_encode (r_mermaid_code res) = Some bytes"
              using Some by (simp add: res_def)
            show "r_svg_url res = S ''https://mermaid.ink/svg/'' @ urlsafe_b64encode bytes"
              by (simp add: res_def url_def)
            show "current_svg_url (s2\<lparr>current_svg_url := url\<rparr>) = r_svg_url res"
              by (simp add: res_def)
            show "current_mermaid_code (s2\<lparr>current_svg_url := url\<rparr>) = r_mermaid_code res"
              using s2 by (simp add: res_def)
            show "code_storage (s2\<lparr>current_svg_url := url\<rparr>) = code_storage s"
              using s2 by simp
          qed
        qed
      qed
    qed
  qed
qed


text \<open>
  C8. The URL the renderer builds is round-trippable. Whenever the diagram text has UTF-8
  bytes (it holds no surrogate code point), \<open>mermaid_to_svg\<close> stores and returns a URL
  whose payload decodes, by URL-safe base64, to exactly those bytes; and whenever
  \<open>process_code_internal\<close> returns a result, the payload of its \<open>svg_url\<close> decodes
  to exactly the UTF-8 bytes of its \<open>mermaid_code\<close>. (For a text with a surrogate code
  point no URL is built: the encoding raises.)
\<close>

theorem renderer_roundtrip:
  "(utf8_encode text = Some bs \<longrightarrow>
      (\<exists>url s'. mermaid_to_svg text s = (ImgHtml url, s') \<and> tw_current_svg_url s' = url \<and>
         urlsafe_b64decode (url_payload url) = Some bs)) \<and>
   (process_code_internal env s code lang = (Inr res, s'') \<longrightarrow>
      (\<exists>bytes. utf8_encode (r_mermaid_code res) = Some bytes \<and>
         urlsafe_b64decode (url_payload (r_svg_url res)) = Some bytes))"
proof (intro conjI impI)
  assume "utf8_encode text = Some bs"
  then show "\<exists>url s'. mermaid_to_svg text s = (ImgHtml url, s') \<and> tw_current_svg_url s' = url \<and>
         urlsafe_b64decode (url_payload url) = Some bs"
    by (simp add: mermaid_to_svg_def Let_def url_payload_def urlsafe_roundtrip)
next
  assume run: "process_code_internal env s code lang = (Inr res, s'')"
  show "\<exists>bytes. utf8_encode (r_mermaid_code res) = Some bytes \<and>
         urlsafe_b64decode (url_payload (r_svg_url res)) = Some bytes"
  proof (cases rule: process_code_internal_cases [of env s code lang])
    case (early e)
    with run show ?thesis by simp
  next
    case (encode s2)
    with run show ?thesis by simp
  next
    case (ok res' s3 bytes)
    with run have "res' = res" by simp
    with ok show ?thesis
      by (auto simp: url_payload_def urlsafe_roundtrip)
  qed
qed

theorem renderer_roundtrip_witness:
  "utf8_encode example_text
     = Some [103, 114, 97, 112, 104, 32, 84, 68, 10, 65, 195, 169, 226, 130, 172, 240, 159, 152, 128] \<and>
   fst (mermaid_to_svg example_text initial_state)
     = ImgHtml (S ''https://mermaid.ink/svg/Z3JhcGggVEQKQcOp4oKs8J-YgA=='') \<and>
   urlsafe_b64decode (S ''Z3JhcGggVEQKQcOp4oKs8J-YgA=='')
     = Some [103, 114, 97, 112, 104, 32, 84, 68, 10, 65, 195, 169, 226, 130, 172, 240, 159, 152, 128]"
proof -
  have enc: "utf8_encode example_text
     = Some [103, 114, 97, 112, 104, 32, 84, 68, 10, 65, 195, 169, 226, 130, 172, 240, 159, 152, 128]"
    by (simp add: example_text_def utf8_encode_cp_def)
  have img: "fst (mermaid_to_svg example_text initial_state)
     = ImgHtml (S ''https://mermaid.ink/svg/Z3JhcGggVEQKQcOp4oKs8J-YgA=='')"
    by (simp add: mermaid_to_svg_def enc urlsafe_b64encode_def b64_char_def Let_def)
  have "\<exists>url s'. mermaid_to_svg example_text initial_state = (ImgHtml url, s') \<and>
      tw_current_svg_url s' = url \<and>
      urlsafe_b64decode (url_payload url)
        = Some [103, 114, 97, 112, 104, 32, 84, 68, 10, 65, 195, 169, 226, 130, 172, 240, 159, 152, 128]"
    using renderer_roundtrip [of example_text _ initial_state, THEN conjunct1, THEN mp, OF enc] .
  then obtain url s' where u: "mermaid_to_svg example_text initial_state = (ImgHtml url, s')"
      "urlsafe_b64decode (url_payload url)
         = Some [103, 114, 97, 112, 104, 32, 84, 68, 10, 65, 195, 169, 226, 130, 172, 240, 159, 152, 128]"
    by (elim exE conjE)
  from img have "url = S ''https://mermaid.ink/svg/Z3JhcGggVEQKQcOp4oKs8J-YgA==''"
    unfolding u(1) by simp
  then have "url_payload url = S ''Z3JhcGggVEQKQcOp4oKs8J-YgA==''"
    by (simp add: url_payload_def)
  with u(2) have "urlsafe_b64decode (S ''Z3JhcGggVEQKQcOp4oKs8J-YgA=='')
     = Some [103, 114, 97, 112, 104, 32, 84, 68, 10, 65, 195, 169, 226, 130, 172, 240, 159, 152, 128]"
    by simp
  with enc img show ?thesis by (intro conjI)
qed

section \<open>Combining the diagrams: blocks and chain\<close>

lemma foldl_concat_map: "foldl (\<lambda>acc x. acc @ g x) acc xs = acc @ concat (map g xs)"
  by (induction xs arbitrary: acc) simp_all

lemma map_enumerate_zip:
  "length cs = length fs \<Longrightarrow>
   map (\<lambda>(i, (c, f)). g i c f) (enumerate 0 (zip cs fs))
     = map (\<lambda>i. g i (cs ! i) (fs ! i)) [0 ..< length fs]"
  by (rule nth_equalityI) (simp_all add: nth_enumerate_eq)

lemma combine_flowcharts_closed:
  assumes "length fs \<noteq> 1" "st_chunks st = Some cs" "length cs = length fs"
  shows "combine_flowcharts fs st =
     Inr (join [10]
       ([S ''graph TD'', S ''    START([Program Start])'']
        @ concat (map (\<lambda>i. subgraph_lines i (cs ! i) (fs ! i)) [0 ..< length fs])
        @ (S ''    START --> SUB0''
           # map (\<lambda>i. S ''    SUB'' @ str_int (int i) @ S '' --> SUB'' @ str_int (int i + 1))
               [0 ..< length fs - 1]
           @ [S ''    SUB'' @ str_int (int (length fs) - 1) @ S '' --> END([Program End])''])))"
proof -
  have loop: "foldl (\<lambda>lines (i, (chunk, flowchart)). lines @ subgraph_lines i chunk flowchart)
          acc (enumerate 0 (zip cs fs))
        = acc @ concat (map (\<lambda>i. subgraph_lines i (cs ! i) (fs ! i)) [0 ..< length fs])" for acc
  proof -
    have "(\<lambda>lines (i, (chunk, flowchart)). lines @ subgraph_lines i chunk flowchart)
        = (\<lambda>lines x. lines @ (\<lambda>(i, (c, f)). subgraph_lines i c f) x)"
      by (auto simp: fun_eq_iff)
    then show ?thesis
      using map_enumerate_zip [OF assms(3), of subgraph_lines]
      by (simp add: foldl_concat_map)
  qed
  show ?thesis
    using assms(1,2)
    by (simp add: combine_flowcharts_def Let_def loop foldl_snoc_map del: upt_Suc)
qed


text \<open>
  C3. Given a single fragment, \<open>combine_flowcharts\<close> returns it unchanged. Given
  N > 1 fragments, one per chunk of the structure, its output is the directive line and
  the start node, then exactly N subgraph blocks in input order (block i opens with the
  line of \<open>SUBi\<close> and closes with \<open>end\<close>), then a chain of N + 1 edges: start to
  \<open>SUB0\<close>, \<open>SUBi\<close> to the next, and the last subgraph to the end node.
\<close>

theorem combine_flowcharts_shape:
  "combine_flowcharts [f] st = Inr f \<and>
   (1 < length fs \<and> st_chunks st = Some cs \<and> length cs = length fs \<longrightarrow>
      (\<exists>blocks edges.
         combine_flowcharts fs st =
           Inr (join [10] ([S ''graph TD'', S ''    START([Program Start])'']
                             @ concat blocks @ edges)) \<and>
         length blocks = length fs \<and>
         (\<forall>i < length fs. blocks ! i = subgraph_lines i (cs ! i) (fs ! i) \<and>
            hd (blocks ! i) = S ''    subgraph SUB'' @ str_int (int i) @ S ''['' @ c_name (cs ! i) @ S '']'' \<and>
            last (blocks ! i) = S ''    end'') \<and>
         length edges = length fs + 1 \<and>
         edges ! 0 = S ''    START --> SUB0'' \<and>
         (\<forall>i < length fs - 1.
            edges ! (i + 1) = S ''    SUB'' @ str_int (int i) @ S '' --> SUB'' @ str_int (int i + 1)) \<and>
         edges ! length fs
           = S ''    SUB'' @ str_int (int (length fs) - 1) @ S '' --> END([Program End])''))"
proof (intro conjI impI)
  show "combine_flowcharts [f] st = Inr f"
    by (simp add: combine_flowcharts_def)
next
  assume h: "1 < length fs \<and> st_chunks st = Some cs \<and> length cs = length fs"
  define blocks where "blocks = map (\<lambda>i. subgraph_lines i (cs ! i) (fs ! i)) [0 ..< length fs]"
  define mid where "mid = map (\<lambda>i. S ''    SUB'' @ str_int (int i) @ S '' --> SUB'' @ str_int (int i + 1))
               [0 ..< length fs - 1]"
  define edges where "edges = S ''    START --> SUB0'' # mid
           @ [S ''    SUB'' @ str_int (int (length fs) - 1) @ S '' --> END([Program End])'']"
  have lm: "length mid = length fs - 1" by (simp add: mid_def)
  from h have "combine_flowcharts fs st =
           Inr (join [10] ([S ''graph TD'', S ''    START([Program Start])'']
                             @ concat blocks @ edges))"
    using combine_flowcharts_closed [of fs st cs] by (simp add: blocks_def edges_def mid_def)
  moreover have "length blocks = length fs" by (simp add: blocks_def)
  moreover have "\<forall>i < length fs. blocks ! i = subgraph_lines i (cs ! i) (fs ! i) \<and>
            hd (blocks ! i) = S ''    subgraph SUB'' @ str_int (int i) @ S ''['' @ c_name (cs ! i) @ S '']'' \<and>
            last (blocks ! i) = S ''    end''"
    by (simp add: blocks_def subgraph_lines_def Let_def)
  moreover have "length edges = length fs + 1" using h by (auto simp add: edges_def lm)
  moreover have "edges ! 0 = S ''    START --> SUB0''" by (simp add: edges_def)
  moreover have "\<forall>i < length fs - 1.
            edges ! (i + 1) = S ''    SUB'' @ str_int (int i) @ S '' --> SUB'' @ str_int (int i + 1)"
    by (simp add: edges_def nth_append lm) (simp add: mid_def)
  moreover have "edges ! length fs
           = S ''    SUB'' @ str_int (int (length fs) - 1) @ S '' --> END([Program End])''"
  proof -
    from h obtain n where n: "length fs = Suc n" by (cases "length fs") auto
    then show ?thesis using lm by (simp add: edges_def nth_append)
  qed
  ultimately show "\<exists>blocks edges.
         combine_flowcharts fs st =
           Inr (join [10] ([S ''graph TD'', S ''    START([Program Start])'']
                             @ concat blocks @ edges)) \<and>
         length blocks = length fs \<and>
         (\<forall>i < length fs. blocks ! i = subgraph_lines i (cs ! i) (fs ! i) \<and>
            hd (blocks ! i) = S ''    subgraph SUB'' @ str_int (int i) @ S ''['' @ c_name (cs ! i) @ S '']'' \<and>
            last (blocks ! i) = S ''    end'') \<and>
         length edges = length fs + 1 \<and>
         edges ! 0 = S ''    START --> SUB0'' \<and>
         (\<forall>i < length fs - 1.
            edges ! (i + 1) = S ''    SUB'' @ str_int (int i) @ S '' --> SUB'' @ str_int (int i + 1)) \<and>
         edges ! length fs
           = S ''    SUB'' @ str_int (int (length fs) - 1) @ S '' --> END([Program End])''"
    by blast
qed

lemma example_block0: "subgraph_lines 0 (example_chunks ! 0) (example_fragments ! 0)
   = [S ''    subgraph SUB0[f]'', S ''        A1([Start]) --> A2([End])'', S ''    end'']"
  by (simp add: subgraph_lines_def example_chunks_def example_fragments_def function_chunk_def
      FunctionInfo_init_def split_def strip_def isspace_def startswith_def str_int_def digits.simps Let_def)

lemma example_block1: "subgraph_lines 1 (example_chunks ! 1) (example_fragments ! 1)
   = [S ''    subgraph SUB1[Main Execution]'', S ''      B1[Call f]'', S ''    end'']"
  by (simp add: subgraph_lines_def example_chunks_def example_fragments_def
      split_def strip_def isspace_def startswith_def str_int_def digits.simps Let_def)


theorem combine_flowcharts_shape_witness:
  "combine_flowcharts [S ''graph TD''] example_combined = Inr (S ''graph TD'') \<and>
   1 < length example_fragments \<and> st_chunks example_combined = Some example_chunks \<and>
   length example_chunks = length example_fragments \<and>
   (\<exists>blocks edges.
      combine_flowcharts example_fragments example_combined =
        Inr (join [10] ([S ''graph TD'', S ''    START([Program Start])''] @ concat blocks @ edges)) \<and>
      length blocks = 2 \<and>
      blocks ! 0 = [S ''    subgraph SUB0[f]'', S ''        A1([Start]) --> A2([End])'', S ''    end''] \<and>
      blocks ! 1 = [S ''    subgraph SUB1[Main Execution]'', S ''      B1[Call f]'', S ''    end''] \<and>
      length edges = 3 \<and>
      edges ! 0 = S ''    START --> SUB0'' \<and>
      edges ! 1 = S ''    SUB0 --> SUB1'' \<and>
      edges ! 2 = S ''    SUB1 --> END([Program End])'')"
proof -
  have len: "length example_fragments = 2" "length example_chunks = 2"
    by (simp_all add: example_fragments_def example_chunks_def)
  have hyp: "1 < length example_fragments \<and> st_chunks example_combined = Some example_chunks \<and>
      length example_chunks = length example_fragments"
    by (simp add: len example_combined_def)
  from combine_flowcharts_shape [of "S ''graph TD''" example_combined example_fragments example_chunks] hyp
  obtain blocks edges where
    out: "combine_flowcharts example_fragments example_combined =
        Inr (join [10] ([S ''graph TD'', S ''    START([Program Start])''] @ concat blocks @ edges))"
    and nb: "length blocks = length example_fragments"
    and bl: "\<forall>i < length example_fragments.
        blocks ! i = subgraph_lines i (example_chunks ! i) (example_fragments ! i) \<and>
        hd (blocks ! i) = S ''    subgraph SUB'' @ str_int (int i) @ S ''['' @ c_name (example_chunks ! i) @ S '']'' \<and>
        last (blocks ! i) = S ''    end''"
    and ne: "length edges = length example_fragments + 1"
    and e0: "edges ! 0 = S ''    START --> SUB0''"
    and em: "\<forall>i < length example_fragments - 1.
        edges ! (i + 1) = S ''    SUB'' @ str_int (int i) @ S '' --> SUB'' @ str_int (int i + 1)"
    and el: "edges ! length example_fragments
        = S ''    SUB'' @ str_int (int (length example_fragments) - 1) @ S '' --> END([Program End])''"
    by blast
  have single: "combine_flowcharts [S ''graph TD''] example_combined = Inr (S ''graph TD'')"
    using combine_flowcharts_shape [of "S ''graph TD''" example_combined] by blast
  from bl have "blocks ! 0 = subgraph_lines 0 (example_chunks ! 0) (example_fragments ! 0)"
    by (simp add: len)
  then have b0: "blocks ! 0
      = [S ''    subgraph SUB0[f]'', S ''        A1([Start]) --> A2([End])'', S ''    end'']"
    by (simp only: example_block0)
  from bl have "blocks ! 1 = subgraph_lines 1 (example_chunks ! 1) (example_fragments ! 1)"
    by (simp add: len)
  then have b1: "blocks ! 1
      = [S ''    subgraph SUB1[Main Execution]'', S ''      B1[Call f]'', S ''    end'']"
    by (simp only: example_block1)
  from em have e1: "edges ! 1 = S ''    SUB0 --> SUB1''"
    by (simp add: len str_int_def digits.simps)
  from el have e2: "edges ! 2 = S ''    SUB1 --> END([Program End])''"
    by (simp add: len str_int_def digits.simps)
  from nb ne have n: "length blocks = 2" "length edges = 3" by (simp_all add: len)
  from out n b0 b1 e0 e1 e2 have "\<exists>blocks edges.
      combine_flowcharts example_fragments example_combined =
        Inr (join [10] ([S ''graph TD'', S ''    START([Program Start])''] @ concat blocks @ edges)) \<and>
      length blocks = 2 \<and>
      blocks ! 0 = [S ''    subgraph SUB0[f]'', S ''        A1([Start]) --> A2([End])'', S ''    end''] \<and>
      blocks ! 1 = [S ''    subgraph SUB1[Main Execution]'', S ''      B1[Call f]'', S ''    end''] \<and>
      length edges = 3 \<and>
      edges ! 0 = S ''    START --> SUB0'' \<and>
      edges ! 1 = S ''    SUB0 --> SUB1'' \<and>
      edges ! 2 = S ''    SUB1 --> END([Program End])''"
    by (intro exI [of _ blocks] exI [of _ edges] conjI)
  with single hyp show ?thesis by (intro conjI) (elim conjE, assumption)+
qed

text \<open>
  C7. The loop computes \<open>chunk_name\<close>, the display name with spaces replaced by
  underscores, and never uses it: the block's header line is built from the display name
  itself. For the aggregate chunk, always named \<open>Main Execution\<close>, the emitted name
  keeps its space. The lines inside the block are those of the fragment that are not
  blank and do not start with \<open>graph\<close> or \<open>flowchart\<close>, each behind four spaces.
\<close>

theorem subgraph_name_keeps_spaces:
  "replace (c_name (example_chunks ! 1)) 32 95 = S ''Main_Execution'' \<and>
   combine_flowcharts example_fragments example_combined =
     Inr (join [10]
       [S ''graph TD'', S ''    START([Program Start])'',
        S ''    subgraph SUB0[f]'', S ''        A1([Start]) --> A2([End])'', S ''    end'',
        S ''    subgraph SUB1[Main Execution]'', S ''      B1[Call f]'', S ''    end'',
        S ''    START --> SUB0'', S ''    SUB0 --> SUB1'', S ''    SUB1 --> END([Program End])''])"
proof -
  have len: "length example_fragments = 2" "length example_chunks = 2"
    by (simp_all add: example_fragments_def example_chunks_def)
  have up: "[0 ..< 2] = [0, 1]" "[0 ..< 2 - 1] = [0]"
    by (simp_all add: upt_rec)
  have "combine_flowcharts example_fragments example_combined =
     Inr (join [10]
       ([S ''graph TD'', S ''    START([Program Start])'']
        @ concat (map (\<lambda>i. subgraph_lines i (example_chunks ! i) (example_fragments ! i)) [0, 1])
        @ (S ''    START --> SUB0''
           # map (\<lambda>i. S ''    SUB'' @ str_int (int i) @ S '' --> SUB'' @ str_int (int i + 1)) [0]
           @ [S ''    SUB'' @ str_int (int 2 - 1) @ S '' --> END([Program End])''])))"
    using combine_flowcharts_closed [of example_fragments example_combined example_chunks]
    by (simp only: len up) (simp add: example_combined_def)
  also have "\<dots> = Inr (join [10]
       [S ''graph TD'', S ''    START([Program Start])'',
        S ''    subgraph SUB0[f]'', S ''        A1([Start]) --> A2([End])'', S ''    end'',
        S ''    subgraph SUB1[Main Execution]'', S ''      B1[Call f]'', S ''    end'',
        S ''    START --> SUB0'', S ''    SUB0 --> SUB1'', S ''    SUB1 --> END([Program End])''])"
    using example_block0 example_block1 by (simp add: str_int_def digits.simps)
  finally have out: "combine_flowcharts example_fragments example_combined =
     Inr (join [10]
       [S ''graph TD'', S ''    START([Program Start])'',
        S ''    subgraph SUB0[f]'', S ''        A1([Start]) --> A2([End])'', S ''    end'',
        S ''    subgraph SUB1[Main Execution]'', S ''      B1[Call f]'', S ''    end'',
        S ''    START --> SUB0'', S ''    SUB0 --> SUB1'', S ''    SUB1 --> END([Program End])''])" .
  have "replace (c_name (example_chunks ! 1)) 32 95 = S ''Main_Execution''"
    by (simp add: example_chunks_def replace_def)
  with out show ?thesis by (intro conjI)
qed

section \<open>Sessions and blank submissions\<close>

lemma submit_code_blank:
  "code = [] \<or> strip code = [] \<Longrightarrow>
   submit_code s new_id code =
     (Inl (HTTPException 500 (Wrapped (S ''Error submitting code: '')
        (HTTPException 400 (Detail (S ''Code cannot be empty''))))), s)"
  by (simp add: submit_code_def)

lemma generate_flowchart_blank:
  "code = [] \<or> strip code = [] \<Longrightarrow>
   generate_flowchart env s code lang =
     (Inl (HTTPException 400 (Detail (S ''Code cannot be empty''))), s)"
  by (simp add: generate_flowchart_def)

text \<open>
  C4. A blank submission to \<open>/generate\<close> fails with status 400 and leaves the state as
  it was. The same submission to \<open>/submit-code\<close> also leaves the state as it was, but
  its \<open>HTTPException\<close> of status 400 is raised inside a \<open>try\<close> whose handler catches
  every \<open>Exception\<close> and raises status 500 in its place: the caller sees the generic
  server error, not the client error.
\<close>

theorem submit_code_blank_status:
  "submit_code s new_id (S ''   '') =
     (Inl (HTTPException 500 (Wrapped (S ''Error submitting code: '')
        (HTTPException 400 (Detail (S ''Code cannot be empty''))))), s) \<and>
   http_status (fst (submit_code s new_id (S ''   ''))) = 500 \<and>
   generate_flowchart env s (S ''   '') lang =
     (Inl (HTTPException 400 (Detail (S ''Code cannot be empty''))), s) \<and>
   http_status (fst (generate_flowchart env s (S ''   '') lang)) = 400"
proof -
  have blank: "strip (S ''   '') = []"
    by (simp add: strip_def isspace_def)
  then have b: "S ''   '' = [] \<or> strip (S ''   '') = []" by (rule disjI2)
  show ?thesis
    using submit_code_blank [OF b, of s new_id] generate_flowchart_blank [OF b, of env s lang]
    by simp
qed

lemma submit_code_ok:
  assumes "strip c \<noteq> []"
  shows "submit_code s sid c =
     (Inr (SubmitResponse sid (length c) (length (splitlines c))),
      s\<lparr>code_storage := (code_storage s)(sid \<mapsto> \<lparr>s_code = c, s_language = S ''auto''\<rparr>)\<rparr>)"
proof -
  from assms have "c \<noteq> []" by (auto simp: strip_def)
  with assms show ?thesis by (simp add: submit_code_def Let_def)
qed

text \<open>
  C5, as amended. The session store. Creating a session for non-blank code stores the
  code with language \<open>auto\<close> under the identifier the generator draws (whether or not
  that identifier is in use): the stored session is that pair, and a subsequent read
  returns language \<open>auto\<close> with the code's presence flag, its length and its line
  count, not the code itself. Setting a language of the allowed set on a stored
  identifier overwrites the language, and a later read reflects it; a language outside
  the set fails with status 400. Reading, setting the language of, or deleting an absent
  identifier fails with status 404. After a delete, reading the identifier fails with
  status 404.
\<close>

theorem session_lifecycle:
  "(strip c \<noteq> [] \<longrightarrow>
      fst (submit_code s sid c) = Inr (SubmitResponse sid (length c) (length (splitlines c))) \<and>
      code_storage (snd (submit_code s sid c)) sid = Some \<lparr>s_code = c, s_language = S ''auto''\<rparr> \<and>
      fst (get_session (snd (submit_code s sid c)) sid)
        = Inr (SessionResponse sid True (S ''auto'') (length c) (length (splitlines c)))) \<and>
   (code_storage s sid = Some sess \<and> lang \<in> set valid_languages \<longrightarrow>
      fst (set_language s sid lang) = Inr (LanguageResponse sid lang) \<and>
      code_storage (snd (set_language s sid lang)) sid = Some (sess\<lparr>s_language := lang\<rparr>) \<and>
      fst (get_session (snd (set_language s sid lang)) sid)
        = Inr (SessionResponse sid (s_code sess \<noteq> []) lang (length (s_code sess))
                 (length (splitlines (s_code sess))))) \<and>
   (code_storage s sid = Some sess \<and> lang \<notin> set valid_languages \<longrightarrow>
      http_status (fst (set_language s sid lang)) = 400 \<and> snd (set_language s sid lang) = s) \<and>
   (code_storage s sid = None \<longrightarrow>
      http_status (fst (get_session s sid)) = 404 \<and> snd (get_session s sid) = s \<and>
      http_status (fst (set_language s sid lang)) = 404 \<and> snd (set_language s sid lang) = s \<and>
      http_status (fst (delete_session s sid)) = 404 \<and> snd (delete_session s sid) = s) \<and>
   (code_storage s sid = Some sess \<longrightarrow>
      fst (delete_session s sid) = Inr DeleteResponse \<and>
      code_storage (snd (delete_session s sid)) sid = None \<and>
      http_status (fst (get_session (snd (delete_session s sid)) sid)) = 404)"
proof (intro conjI impI)
  assume ne: "strip c \<noteq> []"
  then have "c \<noteq> []" by (auto simp: strip_def)
  with ne show "fst (submit_code s sid c) = Inr (SubmitResponse sid (length c) (length (splitlines c)))"
    "code_storage (snd (submit_code s sid c)) sid = Some \<lparr>s_code = c, s_language = S ''auto''\<rparr>"
    "fst (get_session (snd (submit_code s sid c)) sid)
        = Inr (SessionResponse sid True (S ''auto'') (length c) (length (splitlines c)))"
    by (simp_all add: submit_code_ok get_session_def)
next
  assume h: "code_storage s sid = Some sess \<and> lang \<in> set valid_languages"
  then show "fst (set_language s sid lang) = Inr (LanguageResponse sid lang)"
    "code_storage (snd (set_language s sid lang)) sid = Some (sess\<lparr>s_language := lang\<rparr>)"
    "fst (get_session (snd (set_language s sid lang)) sid)
        = Inr (SessionResponse sid (s_code sess \<noteq> []) lang (length (s_code sess))
                 (length (splitlines (s_code sess))))"
    by (simp_all add: set_language_def get_session_def)
next
  assume h: "code_storage s sid = Some sess \<and> lang \<notin> set valid_languages"
  then show "http_status (fst (set_language s sid lang)) = 400" "snd (set_language s sid lang) = s"
    by (simp_all add: set_language_def)
next
  assume h: "code_storage s sid = None"
  then show "http_status (fst (get_session s sid)) = 404" "snd (get_session s sid) = s"
    "http_status (fst (set_language s sid lang)) = 404" "snd (set_language s sid lang) = s"
    "http_status (fst (delete_session s sid)) = 404" "snd (delete_session s sid) = s"
    by (simp_all add: get_session_def set_language_def delete_session_def)
next
  assume h: "code_storage s sid = Some sess"
  then show "fst (delete_session s sid) = Inr DeleteResponse"
    "code_storage (snd (delete_session s sid)) sid = None"
    "http_status (fst (get_session (snd (delete_session s sid)) sid)) = 404"
    by (simp_all add: delete_session_def get_session_def)
qed

theorem session_lifecycle_witness:
  "fst (submit_code initial_state (S ''id-1'') (S ''x = 1'')) = Inr (SubmitResponse (S ''id-1'') 5 1) \<and>
   fst (get_session example_stored (S ''id-1'')) = Inr (SessionResponse (S ''id-1'') True (S ''auto'') 5 1) \<and>
   fst (get_session (snd (set_language example_stored (S ''id-1'') (S ''python''))) (S ''id-1''))
     = Inr (SessionResponse (S ''id-1'') True (S ''python'') 5 1) \<and>
   http_status (fst (set_language example_stored (S ''id-1'') (S ''rust''))) = 400 \<and>
   http_status (fst (get_session initial_state (S ''id-1''))) = 404 \<and>
   http_status (fst (set_language initial_state (S ''id-1'') (S ''python''))) = 404 \<and>
   http_status (fst (delete_session initial_state (S ''id-1''))) = 404 \<and>
   fst (delete_session example_stored (S ''id-1'')) = Inr DeleteResponse \<and>
   http_status (fst (get_session (snd (delete_session example_stored (S ''id-1''))) (S ''id-1''))) = 404"
proof -
  have ne: "strip (S ''x = 1'') \<noteq> []"
    by (simp add: strip_def isspace_def)
  have sl: "length (splitlines (S ''x = 1'')) = 1"
    by (simp add: splitlines_def is_linebreak_def)
  note create = session_lifecycle [of "S ''x = 1''" initial_state "S ''id-1''", THEN conjunct1, THEN mp, OF ne]
  from create have st: "code_storage example_stored (S ''id-1'') = Some \<lparr>s_code = S ''x = 1'', s_language = S ''auto''\<rparr>"
    by (simp add: example_stored_def)
  have py: "S ''python'' \<in> set valid_languages" and rust: "S ''rust'' \<notin> set valid_languages"
    by (simp_all add: valid_languages_def)
  have none: "code_storage initial_state (S ''id-1'') = None"
    by (simp add: initial_state_def)
  note rest = session_lifecycle [of _ example_stored "S ''id-1''" "\<lparr>s_code = S ''x = 1'', s_language = S ''auto''\<rparr>" "S ''python''",
      THEN conjunct2]
  note bad = session_lifecycle [of _ example_stored "S ''id-1''" "\<lparr>s_code = S ''x = 1'', s_language = S ''auto''\<rparr>" "S ''rust''",
      THEN conjunct2, THEN conjunct2, THEN conjunct1]
  note missing = session_lifecycle [of _ initial_state "S ''id-1''" _ "S ''python''",
      THEN conjunct2, THEN conjunct2, THEN conjunct2, THEN conjunct1, THEN mp, OF none]
  from create sl have a: "fst (submit_code initial_state (S ''id-1'') (S ''x = 1'')) = Inr (SubmitResponse (S ''id-1'') 5 1)"
    "fst (get_session example_stored (S ''id-1'')) = Inr (SessionResponse (S ''id-1'') True (S ''auto'') 5 1)"
    by (simp_all add: example_stored_def)
  from rest st py sl have b: "fst (get_session (snd (set_language example_stored (S ''id-1'') (S ''python''))) (S ''id-1''))
     = Inr (SessionResponse (S ''id-1'') True (S ''python'') 5 1)"
    by simp
  from bad st rust have c: "http_status (fst (set_language example_stored (S ''id-1'') (S ''rust''))) = 400"
    by simp
  from rest st have d: "fst (delete_session example_stored (S ''id-1'')) = Inr DeleteResponse"
    "http_status (fst (get_session (snd (delete_session example_stored (S ''id-1''))) (S ''id-1''))) = 404"
    by simp_all
  from a b c d missing show ?thesis by (intro conjI) (elim conjE, assumption)+
qed

text \<open>
  The read does not return the submitted code: two different submissions of equal length
  and line count give the same read. Nor is the identifier fresh by construction: a
  submission under an identifier in use replaces the stored session.
\<close>

theorem session_read_counterexample:
  "S ''x = 1'' \<noteq> S ''y = 2'' \<and>
   fst (get_session (snd (submit_code initial_state (S ''id-1'') (S ''x = 1''))) (S ''id-1''))
     = fst (get_session (snd (submit_code initial_state (S ''id-1'') (S ''y = 2''))) (S ''id-1'')) \<and>
   code_storage example_stored (S ''id-1'') = Some \<lparr>s_code = S ''x = 1'', s_language = S ''auto''\<rparr> \<and>
   code_storage (snd (submit_code example_stored (S ''id-1'') (S ''y = 2''))) (S ''id-1'')
     = Some \<lparr>s_code = S ''y = 2'', s_language = S ''auto''\<rparr>"
  by (simp add: submit_code_def get_session_def strip_def isspace_def splitlines_def
      is_linebreak_def example_stored_def initial_state_def Let_def)


section \<open>Per-chunk generation: failures of the external call\<close>

lemma py_chr_in_range:
  "- 65 \<le> i \<Longrightarrow> i < 1114047 \<Longrightarrow> py_chr (65 + i) = Inr (nat (65 + i))"
  unfolding py_chr_def by simp

text \<open>
  C6, as amended. For every chunk, every total chunk count and every chunk index \<open>i\<close>
  with \<open>-65 \<le> i < 1114047\<close> (so that \<open>chr(65 + i)\<close> is a code point), per-chunk
  generation returns a diagram and raises nothing: when the text-generation call fails
  it returns the single-node error diagram labelled with the chunk's name. (For an index
  outside that range the prompt cannot be built: \<open>chr\<close> raises before the \<open>try\<close>.)
\<close>

theorem generate_flowchart_for_chunk_degrades:
  "- 65 \<le> chunk_index \<and> chunk_index < 1114047 \<longrightarrow>
     (\<exists>p. build_prompt chunk chunk_index = Inr p \<and>
        (\<exists>d. generate_flowchart_for_chunk llm chunk chunk_index total_chunks = Inr d) \<and>
        (llm p = None \<longrightarrow>
           generate_flowchart_for_chunk llm chunk chunk_index total_chunks
             = Inr (S ''graph TD'' @ [10] @ S ''    ERR[Error: '' @ c_name chunk @ S '']'')))"
proof
  assume r: "- 65 \<le> chunk_index \<and> chunk_index < 1114047"
  define p where "p = \<lparr>p_chunk_name = c_name chunk, p_chunk_type = c_type chunk,
      p_complexity = c_complexity chunk, p_context = build_context chunk,
      p_prefix = nat (65 + chunk_index), p_code = c_code chunk\<rparr>"
  from r have "py_chr (65 + chunk_index) = Inr (nat (65 + chunk_index))"
    by (simp only: py_chr_in_range)
  then have p: "build_prompt chunk chunk_index = Inr p"
    by (simp add: build_prompt_def Let_def p_def)
  have d: "\<exists>d. generate_flowchart_for_chunk llm chunk chunk_index total_chunks = Inr d"
    unfolding generate_flowchart_for_chunk_def p by (cases "llm p") simp_all
  have e: "llm p = None \<longrightarrow>
           generate_flowchart_for_chunk llm chunk chunk_index total_chunks
             = Inr (S ''graph TD'' @ [10] @ S ''    ERR[Error: '' @ c_name chunk @ S '']'')"
    unfolding generate_flowchart_for_chunk_def p by simp
  from p d e show "\<exists>p. build_prompt chunk chunk_index = Inr p \<and>
        (\<exists>d. generate_flowchart_for_chunk llm chunk chunk_index total_chunks = Inr d) \<and>
        (llm p = None \<longrightarrow>
           generate_flowchart_for_chunk llm chunk chunk_index total_chunks
             = Inr (S ''graph TD'' @ [10] @ S ''    ERR[Error: '' @ c_name chunk @ S '']''))"
    by (intro exI [of _ p] conjI)
qed

theorem generate_flowchart_for_chunk_degrades_witness:
  "generate_flowchart_for_chunk (e_llm failing_env) (example_chunks ! 0) 0 2
     = Inr (S ''graph TD'' @ [10] @ S ''    ERR[Error: f]'')"
proof -
  have r: "- 65 \<le> (0::int) \<and> (0::int) < 1114047" by simp
  from generate_flowchart_for_chunk_degrades [of 0 "example_chunks ! 0" "e_llm failing_env" 2, THEN mp, OF r]
  obtain p where p: "e_llm failing_env p = None \<longrightarrow>
      generate_flowchart_for_chunk (e_llm failing_env) (example_chunks ! 0) 0 2
        = Inr (S ''graph TD'' @ [10] @ S ''    ERR[Error: '' @ c_name (example_chunks ! 0) @ S '']'')"
    by (elim exE conjE)
  have "e_llm failing_env p = None" by (simp add: failing_env_def)
  with p have "generate_flowchart_for_chunk (e_llm failing_env) (example_chunks ! 0) 0 2
        = Inr (S ''graph TD'' @ [10] @ S ''    ERR[Error: '' @ c_name (example_chunks ! 0) @ S '']'')"
    by (rule mp)
  moreover have "c_name (example_chunks ! 0) = S ''f''"
    by (simp add: example_chunks_def function_chunk_def FunctionInfo_init_def)
  ultimately show ?thesis by simp
qed

text \<open>
  The claim fails for chunk index 1114047: \<open>chr(1114112)\<close> raises \<open>ValueError\<close> where
  the prompt is built, outside the \<open>try\<close>, and the exception reaches the caller.
\<close>

theorem generate_flowchart_for_chunk_counterexample:
  "generate_flowchart_for_chunk (e_llm failing_env) (example_chunks ! 0) 1114047 1114048
     = Inl ValueError"
  by (simp add: generate_flowchart_for_chunk_def build_prompt_def py_chr_def Let_def)

section \<open>Example runs\<close>




section \<open>An empty plan\<close>

lemma length_split_aux: "length (split_aux sep cur s) = 1 + length (filter (\<lambda>c. c = sep) s)"
  by (induction s arbitrary: cur) simp_all

lemma utf8_encode_newlines: "utf8_encode (replicate n 10) = Some (replicate n 10)"
  by (induction n) (simp_all add: utf8_encode_cp_def)

lemma generate_loop_Nil: "generate_loop llm n (enumerate 0 []) [] = Inr []"
  by simp

text \<open>
  C9. For every code text whose reported line count exceeds 500 and for which no function
  and no top-level snippet is extracted, \<open>create_chunks\<close> returns no chunk, the
  generation loop returns no fragment, and the orchestrator's \<open>chunk_flowcharts[0]\<close>
  raises \<open>IndexError\<close>: \<open>process_code_internal\<close> propagates it (the \<open>/generate\<close>
  handler answers 500 for non-blank code) and \<open>process_production_code\<close> ends with its
  error message. The witness is such an input: a comment sign followed by 500 newlines.
\<close>

theorem empty_plan_index_error:
  "analyze_code_structure env code
       (if lang_choice \<noteq> S ''auto'' then lang_choice else detect_language code) = Inr st \<and>
   500 < st_total_lines st \<and> st_functions st = [] \<and> st_main_code st = [] \<longrightarrow>
     create_chunks st code 500 = [] \<and>
     generate_loop (e_llm env) 0 (enumerate 0 (create_chunks st code 500)) [] = Inr [] \<and>
     index0 ([] :: str list) = Inl IndexError \<and>
     process_code_internal env s code lang_choice = (Inl IndexError, s) \<and>
     process_production_code env s code lang_choice
       = (if strip code = [] then (PleaseEnterCode, s) else (ErrorMessage IndexError, s)) \<and>
     http_status (fst (generate_flowchart env s code lang_choice))
       = (if strip code = [] then 400 else 500)"
proof
  assume h: "analyze_code_structure env code
       (if lang_choice \<noteq> S ''auto'' then lang_choice else detect_language code) = Inr st \<and>
   500 < st_total_lines st \<and> st_functions st = [] \<and> st_main_code st = []"
  then have ch: "create_chunks st code 500 = []"
    by (simp add: create_chunks_large)
  have ix: "index0 ([] :: str list) = Inl IndexError" by (simp add: index0_def)
  from h ch have p: "process_code_internal env s code lang_choice = (Inl IndexError, s)"
    by (simp add: process_code_internal_def Let_def index0_def)
  from h ch have q: "process_production_code env s code lang_choice
       = (if strip code = [] then (PleaseEnterCode, s) else (ErrorMessage IndexError, s))"
    by (simp add: process_production_code_def Let_def index0_def)
  have g: "http_status (fst (generate_flowchart env s code lang_choice))
       = (if strip code = [] then 400 else 500)"
  proof (cases "strip code = []")
    case True
    then show ?thesis by (simp add: generate_flowchart_def)
  next
    case False
    then have "code \<noteq> []" by (auto simp: strip_def)
    with False p show ?thesis by (simp add: generate_flowchart_def)
  qed
  from ch ix p q g show "create_chunks st code 500 = [] \<and>
     generate_loop (e_llm env) 0 (enumerate 0 (create_chunks st code 500)) [] = Inr [] \<and>
     index0 ([] :: str list) = Inl IndexError \<and>
     process_code_internal env s code lang_choice = (Inl IndexError, s) \<and>
     process_production_code env s code lang_choice
       = (if strip code = [] then (PleaseEnterCode, s) else (ErrorMessage IndexError, s)) \<and>
     http_status (fst (generate_flowchart env s code lang_choice))
       = (if strip code = [] then 400 else 500)"
    by simp
qed

lemma comment_only_structure:
  "analyze_code_structure example_env comment_only_code (S ''python'')
     = Inr \<lparr>st_functions = [], st_main_code = [], st_total_lines = 501,
             st_function_count = 0, st_chunks = None\<rparr>"
  by (simp add: analyze_code_structure_def comment_only_code_def utf8_encode_newlines
      utf8_encode_cp_def example_env_def split_def length_split_aux)

lemma comment_only_language: "detect_language comment_only_code = S ''python''"
proof -
  have "dropWhile isspace (rev (35 # replicate 500 10)) = [35]"
    by (simp add: isspace_def dropWhile_append3 flip: replicate_append_same)
  then have "strip comment_only_code = [35]"
    by (simp add: strip_def comment_only_code_def isspace_def)
  then show ?thesis
    by (simp add: detect_language_def startswith_def)
qed




lemma comment_only_strip: "strip comment_only_code = [35]"
proof -
  have "dropWhile isspace (rev (35 # replicate 500 10)) = [35]"
    by (simp add: isspace_def dropWhile_append3 flip: replicate_append_same)
  then show ?thesis
    by (simp add: strip_def comment_only_code_def isspace_def)
qed

theorem empty_plan_index_error_witness:
  "analyze_code_structure example_env comment_only_code (detect_language comment_only_code)
     = Inr \<lparr>st_functions = [], st_main_code = [], st_total_lines = 501,
             st_function_count = 0, st_chunks = None\<rparr> \<and>
   create_chunks \<lparr>st_functions = [], st_main_code = [], st_total_lines = 501,
             st_function_count = 0, st_chunks = None\<rparr> comment_only_code 500 = [] \<and>
   process_code_internal example_env initial_state comment_only_code (S ''auto'')
     = (Inl IndexError, initial_state) \<and>
   process_production_code example_env initial_state comment_only_code (S ''auto'')
     = (ErrorMessage IndexError, initial_state) \<and>
   http_status (fst (generate_flowchart example_env initial_state comment_only_code (S ''auto''))) = 500"
proof -
  define st where "st = \<lparr>st_functions = [], st_main_code = [], st_total_lines = 501,
             st_function_count = 0, st_chunks = None :: chunk list option\<rparr>"
  have an: "analyze_code_structure example_env comment_only_code (detect_language comment_only_code) = Inr st"
    by (simp only: comment_only_language comment_only_structure st_def)
  then have hyp: "analyze_code_structure example_env comment_only_code
       (if S ''auto'' \<noteq> S ''auto'' then S ''auto'' else detect_language comment_only_code) = Inr st \<and>
     500 < st_total_lines st \<and> st_functions st = [] \<and> st_main_code st = []"
    by (simp add: st_def)
  have ne: "strip comment_only_code \<noteq> []" by (simp add: comment_only_strip)
  note t = empty_plan_index_error [of example_env comment_only_code "S ''auto''" st initial_state,
      THEN mp, OF hyp]
  from t have a: "create_chunks st comment_only_code 500 = []" by (elim conjE)
  from t have b: "process_code_internal example_env initial_state comment_only_code (S ''auto'')
     = (Inl IndexError, initial_state)" by (elim conjE)
  from t ne have c: "process_production_code example_env initial_state comment_only_code (S ''auto'')
     = (ErrorMessage IndexError, initial_state)" by simp
  from t ne have d: "http_status (fst (generate_flowchart example_env initial_state comment_only_code (S ''auto''))) = 500"
    by simp
  from an a b c d show ?thesis unfolding st_def by (intro conjI)
qed

section \<open>The current output across requests\<close>













end
